theory Spec2Isabelle
  imports Complex_Main "HOL-Library.Sublist"
begin

section \<open>Candlestick pattern detection (candlestick\_patterns.py)\<close>

text \<open>
  A shallow embedding of \<^verbatim>\<open>CandlestickPatternDetector\<close> and of the entry point
  \<^verbatim>\<open>detect_candlestick_patterns\<close>.

  Prices are modelled as real numbers, so every comparison and every arithmetic operation is
  exact; rounding of binary floating point is outside the model, and float64 overflow is
  modelled separately, for the single-candle tier.  The only non-number the
  source can produce from numeric input is the NaN that pandas' \<^verbatim>\<open>rolling(...).mean()\<close>
  returns for a window with too few observations; it is modelled as \<open>None\<close>.
\<close>

subsection \<open>Input frames and errors\<close>

text \<open>
  A pandas DataFrame: its column labels and its rows in chronological order (index 0 is the
  oldest).  A row gives the number stored under each column label; only the labels listed in
  \<open>columns\<close> are meaningful.
\<close>

record data_frame =
  columns :: "string list"
  rows :: "(string \<Rightarrow> real) list"

text \<open>\<^verbatim>\<open>raise ValueError(f"Missing required column: {col}")\<close>\<close>

datatype error = ValueError string

text \<open>\<^verbatim>\<open>df.empty\<close>: true when an axis of the frame has length 0.\<close>

definition df_empty :: "data_frame \<Rightarrow> bool" where
  "df_empty f \<longleftrightarrow> rows f = [] \<or> columns f = []"

subsection \<open>Derived candle features\<close>

text \<open>One row of \<^verbatim>\<open>self.df\<close> after \<^verbatim>\<open>_prepare_data\<close> has added the feature columns.\<close>

record candle =
  c_open :: real
  c_high :: real
  c_low :: real
  c_close :: real
  body :: real
  body_size :: real
  upper_shadow :: real
  lower_shadow :: real
  total_size :: real
  is_bullish :: bool
  is_bearish :: bool

definition derive_features :: "(string \<Rightarrow> real) \<Rightarrow> candle" where
  "derive_features r =
     (let op = r ''open''; hi = r ''high''; lo = r ''low''; cl = r ''close''; b = cl - op
      in \<lparr> c_open = op, c_high = hi, c_low = lo, c_close = cl,
           body = b,
           body_size = \<bar>b\<bar>,
           upper_shadow = hi - max op cl,
           lower_shadow = min op cl - lo,
           total_size = hi - lo,
           is_bullish = (b > 0),
           is_bearish = (b < 0) \<rparr>)"

text \<open>
  \<^verbatim>\<open>series.rolling(window=w, min_periods=m).mean()\<close>: the entry at index \<open>i\<close> is the mean of
  the observations in the trailing window of at most \<open>w\<close> positions ending at \<open>i\<close>
  inclusive, and NaN (\<open>None\<close>) when that window holds fewer than \<open>m\<close> observations.
\<close>

definition rolling_window :: "nat \<Rightarrow> real list \<Rightarrow> nat \<Rightarrow> real list" where
  "rolling_window w xs i = drop (Suc i - w) (take (Suc i) xs)"

definition rolling_mean :: "nat \<Rightarrow> nat \<Rightarrow> real list \<Rightarrow> real option list" where
  "rolling_mean w m xs =
     map (\<lambda>i. let win = rolling_window w xs i
              in if m \<le> length win \<and> 0 < length win
                 then Some (sum_list win / real (length win)) else None)
         [0..<length xs]"

subsection \<open>The detector\<close>

record detector =
  df :: "candle list"
  avg_body_size :: "real option list"
  avg_total_size :: "real option list"

definition required_cols :: "string list" where
  "required_cols = [''open'', ''high'', ''low'', ''close'']"

text \<open>The loop over \<^verbatim>\<open>required_cols\<close>: the first absent column raises.\<close>

fun check_required :: "string list \<Rightarrow> string list \<Rightarrow> error option" where
  "check_required cols [] = None"
| "check_required cols (col # rest) =
     (if col \<notin> set cols then Some (ValueError (''Missing required column: '' @ col))
      else check_required cols rest)"

definition prepare_data :: "data_frame \<Rightarrow> error + detector" where
  "prepare_data f =
     (case check_required (columns f) required_cols of
        Some e \<Rightarrow> Inl e
      | None \<Rightarrow>
          (let cs = map derive_features (rows f)
           in Inr \<lparr> df = cs,
                    avg_body_size = rolling_mean 20 1 (map body_size cs),
                    avg_total_size = rolling_mean 20 1 (map total_size cs) \<rparr>))"

subsection \<open>Single-candle predicates\<close>

text \<open>The second argument of \<^verbatim>\<open>_is_doji\<close> (a float, possibly NaN) is never read.\<close>

definition is_doji :: "candle \<Rightarrow> real option \<Rightarrow> bool" where
  "is_doji candle avg_total \<longleftrightarrow> body_size candle \<le> 0.1 * total_size candle"

definition is_dragonfly_doji :: "candle \<Rightarrow> bool" where
  "is_dragonfly_doji candle \<longleftrightarrow>
     body_size candle \<le> 0.1 * total_size candle \<and>
     upper_shadow candle \<le> 0.1 * total_size candle \<and>
     lower_shadow candle > 2 * body_size candle"

definition is_gravestone_doji :: "candle \<Rightarrow> bool" where
  "is_gravestone_doji candle \<longleftrightarrow>
     body_size candle \<le> 0.1 * total_size candle \<and>
     lower_shadow candle \<le> 0.1 * total_size candle \<and>
     upper_shadow candle > 2 * body_size candle"

definition is_long_legged_doji :: "candle \<Rightarrow> bool" where
  "is_long_legged_doji candle \<longleftrightarrow>
     body_size candle \<le> 0.1 * total_size candle \<and>
     upper_shadow candle > 0.2 * total_size candle \<and>
     lower_shadow candle > 0.2 * total_size candle"

definition is_hammer :: "candle \<Rightarrow> real \<Rightarrow> bool" where
  "is_hammer candle avg_body \<longleftrightarrow>
     lower_shadow candle > 2 * avg_body \<and>
     upper_shadow candle < avg_body \<and>
     body_size candle < avg_body"

definition is_inverted_hammer :: "candle \<Rightarrow> real \<Rightarrow> bool" where
  "is_inverted_hammer candle avg_body \<longleftrightarrow>
     upper_shadow candle > 2 * avg_body \<and>
     lower_shadow candle < avg_body \<and>
     body_size candle < avg_body"

definition is_hanging_man :: "candle \<Rightarrow> real \<Rightarrow> bool" where
  "is_hanging_man candle avg_body \<longleftrightarrow>
     lower_shadow candle > 2 * avg_body \<and>
     upper_shadow candle < avg_body \<and>
     body_size candle < avg_body \<and>
     is_bearish candle"

definition is_shooting_star :: "candle \<Rightarrow> real \<Rightarrow> bool" where
  "is_shooting_star candle avg_body \<longleftrightarrow>
     upper_shadow candle > 2 * avg_body \<and>
     lower_shadow candle < avg_body \<and>
     body_size candle < avg_body \<and>
     is_bearish candle"

definition is_spinning_top :: "candle \<Rightarrow> real \<Rightarrow> bool" where
  "is_spinning_top candle avg_body \<longleftrightarrow>
     upper_shadow candle > avg_body \<and>
     lower_shadow candle > avg_body \<and>
     body_size candle < avg_body"

definition is_marubozu :: "candle \<Rightarrow> real \<Rightarrow> bool" where
  "is_marubozu candle avg_body \<longleftrightarrow>
     body_size candle > 2 * avg_body \<and>
     upper_shadow candle < 0.1 * body_size candle \<and>
     lower_shadow candle < 0.1 * body_size candle"

subsection \<open>Two-candle predicates\<close>

definition is_bullish_engulfing :: "candle \<Rightarrow> candle \<Rightarrow> bool" where
  "is_bullish_engulfing current previous \<longleftrightarrow>
     is_bearish previous \<and>
     is_bullish current \<and>
     c_open current < c_close previous \<and>
     c_close current > c_open previous"

definition is_bearish_engulfing :: "candle \<Rightarrow> candle \<Rightarrow> bool" where
  "is_bearish_engulfing current previous \<longleftrightarrow>
     is_bullish previous \<and>
     is_bearish current \<and>
     c_open current > c_close previous \<and>
     c_close current < c_open previous"

definition is_bullish_harami :: "candle \<Rightarrow> candle \<Rightarrow> bool" where
  "is_bullish_harami current previous \<longleftrightarrow>
     is_bearish previous \<and>
     is_bullish current \<and>
     c_high current < c_open previous \<and>
     c_low current > c_close previous"

definition is_bearish_harami :: "candle \<Rightarrow> candle \<Rightarrow> bool" where
  "is_bearish_harami current previous \<longleftrightarrow>
     is_bullish previous \<and>
     is_bearish current \<and>
     c_high current < c_close previous \<and>
     c_low current > c_open previous"

definition is_harami_cross :: "candle \<Rightarrow> candle \<Rightarrow> bool" where
  "is_harami_cross current previous \<longleftrightarrow>
     (is_bullish_harami current previous \<or> is_bearish_harami current previous) \<and>
     is_doji current (Some (total_size current))"

definition is_piercing_pattern :: "candle \<Rightarrow> candle \<Rightarrow> bool" where
  "is_piercing_pattern current previous \<longleftrightarrow>
     is_bearish previous \<and>
     is_bullish current \<and>
     c_open current < c_low previous \<and>
     c_close current > c_close previous + body_size previous / 2"

definition is_dark_cloud_cover :: "candle \<Rightarrow> candle \<Rightarrow> bool" where
  "is_dark_cloud_cover current previous \<longleftrightarrow>
     is_bullish previous \<and>
     is_bearish current \<and>
     c_open current > c_high previous \<and>
     c_close current < c_close previous - body_size previous / 2"

definition is_tweezer_tops :: "candle \<Rightarrow> candle \<Rightarrow> bool" where
  "is_tweezer_tops current previous \<longleftrightarrow>
     \<bar>c_high current - c_high previous\<bar> < 0.1 * c_high current \<and>
     is_bearish current \<and> is_bullish previous"

definition is_tweezer_bottoms :: "candle \<Rightarrow> candle \<Rightarrow> bool" where
  "is_tweezer_bottoms current previous \<longleftrightarrow>
     \<bar>c_low current - c_low previous\<bar> < 0.1 * c_low current \<and>
     is_bullish current \<and> is_bearish previous"

subsection \<open>Three-candle predicates\<close>

definition is_morning_star :: "candle \<Rightarrow> candle \<Rightarrow> candle \<Rightarrow> bool" where
  "is_morning_star first second third \<longleftrightarrow>
     is_bearish first \<and>
     body_size second < 0.5 * body_size first \<and>
     is_bullish third \<and>
     c_close third > (c_open first + c_close first) / 2"

definition is_evening_star :: "candle \<Rightarrow> candle \<Rightarrow> candle \<Rightarrow> bool" where
  "is_evening_star first second third \<longleftrightarrow>
     is_bullish first \<and>
     body_size second < 0.5 * body_size first \<and>
     is_bearish third \<and>
     c_close third < (c_open first + c_close first) / 2"

definition is_three_white_soldiers :: "candle \<Rightarrow> candle \<Rightarrow> candle \<Rightarrow> bool" where
  "is_three_white_soldiers first second third \<longleftrightarrow>
     is_bullish first \<and> is_bullish second \<and> is_bullish third \<and>
     c_open second > c_open first \<and> c_open third > c_open second \<and>
     c_close second > c_close first \<and> c_close third > c_close second"

definition is_three_black_crows :: "candle \<Rightarrow> candle \<Rightarrow> candle \<Rightarrow> bool" where
  "is_three_black_crows first second third \<longleftrightarrow>
     is_bearish first \<and> is_bearish second \<and> is_bearish third \<and>
     c_open second < c_open first \<and> c_open third < c_open second \<and>
     c_close second < c_close first \<and> c_close third < c_close second"

definition is_three_inside_up :: "candle \<Rightarrow> candle \<Rightarrow> candle \<Rightarrow> bool" where
  "is_three_inside_up first second third \<longleftrightarrow>
     is_bearish first \<and>
     is_bullish_harami second first \<and>
     is_bullish third \<and> c_close third > c_high second"

definition is_three_inside_down :: "candle \<Rightarrow> candle \<Rightarrow> candle \<Rightarrow> bool" where
  "is_three_inside_down first second third \<longleftrightarrow>
     is_bullish first \<and>
     is_bearish_harami second first \<and>
     is_bearish third \<and> c_close third < c_low second"

definition is_three_outside_up :: "candle \<Rightarrow> candle \<Rightarrow> candle \<Rightarrow> bool" where
  "is_three_outside_up first second third \<longleftrightarrow>
     is_bearish first \<and>
     is_bullish_engulfing second first \<and>
     is_bullish third \<and> c_close third > c_high second"

definition is_three_outside_down :: "candle \<Rightarrow> candle \<Rightarrow> candle \<Rightarrow> bool" where
  "is_three_outside_down first second third \<longleftrightarrow>
     is_bullish first \<and>
     is_bearish_engulfing second first \<and>
     is_bearish third \<and> c_close third < c_low second"

subsection \<open>The aggregator\<close>

text \<open>
  \<^verbatim>\<open>xs.iloc[-k]\<close>, the \<open>k\<close>-th element from the end.  The source reads it only for
  \<open>1 \<le> k \<le> len(xs)\<close>: each tier first checks the length of \<^verbatim>\<open>self.df\<close>, and the two
  baseline series have the length of \<^verbatim>\<open>self.df\<close>.
\<close>

definition iloc_neg :: "'a list \<Rightarrow> nat \<Rightarrow> 'a" where
  "iloc_neg xs k = xs ! (length xs - k)"

text \<open>\<^verbatim>\<open>if cond: patterns.append(name)\<close>, as the list of labels it contributes.\<close>

definition append_if :: "bool \<Rightarrow> string \<Rightarrow> string list" where
  "append_if cond name = (if cond then [name] else [])"

text \<open>The Doji block of \<^verbatim>\<open>_detect_single_candlestick_patterns\<close>.\<close>

definition doji_patterns :: "candle \<Rightarrow> real option \<Rightarrow> string list" where
  "doji_patterns current avg_total =
     (if is_doji current avg_total then
        (if is_dragonfly_doji current then [''Dragonfly Doji'']
         else if is_gravestone_doji current then [''Gravestone Doji'']
         else if upper_shadow current \<le> 0.1 * total_size current \<and>
                 lower_shadow current \<le> 0.1 * total_size current then [''Doji'']
         else if is_long_legged_doji current then [''Long-legged Doji'']
         else [''Doji''])
      else [])"

text \<open>
  The blocks that compare against \<^verbatim>\<open>avg_body\<close>.  Each predicate starts with a comparison
  against \<^verbatim>\<open>avg_body\<close>, which is false when \<^verbatim>\<open>avg_body\<close> is NaN, so a NaN baseline
  contributes no label.
\<close>

definition baseline_patterns :: "candle \<Rightarrow> real option \<Rightarrow> string list" where
  "baseline_patterns current avg =
     (case avg of
        None \<Rightarrow> []
      | Some avg_body \<Rightarrow>
          append_if (is_hammer current avg_body) ''Hammer'' @
          append_if (is_inverted_hammer current avg_body) ''Inverted Hammer'' @
          append_if (is_hanging_man current avg_body) ''Hanging Man'' @
          append_if (is_shooting_star current avg_body) ''Shooting Star'' @
          append_if (is_spinning_top current avg_body) ''Spinning Top'' @
          (if is_marubozu current avg_body then
             (if is_bullish current then [''Bullish Marubozu''] else [''Bearish Marubozu''])
           else []))"

definition detect_single_candlestick_patterns :: "detector \<Rightarrow> string list" where
  "detect_single_candlestick_patterns d =
     (if length (df d) < 1 then []
      else
        (let current = iloc_neg (df d) 1;
             avg_body = iloc_neg (avg_body_size d) 1;
             avg_total = iloc_neg (avg_total_size d) 1
         in doji_patterns current avg_total @ baseline_patterns current avg_body))"

definition detect_two_candlestick_patterns :: "detector \<Rightarrow> string list" where
  "detect_two_candlestick_patterns d =
     (if length (df d) < 2 then []
      else
        (let current = iloc_neg (df d) 1;
             previous = iloc_neg (df d) 2
         in append_if (is_bullish_engulfing current previous) ''Bullish Engulfing'' @
            append_if (is_bearish_engulfing current previous) ''Bearish Engulfing'' @
            append_if (is_bullish_harami current previous) ''Bullish Harami'' @
            append_if (is_bearish_harami current previous) ''Bearish Harami'' @
            append_if (is_harami_cross current previous) ''Harami Cross'' @
            append_if (is_piercing_pattern current previous) ''Piercing Pattern'' @
            append_if (is_dark_cloud_cover current previous) ''Dark Cloud Cover'' @
            append_if (is_tweezer_tops current previous) ''Tweezer Tops'' @
            append_if (is_tweezer_bottoms current previous) ''Tweezer Bottoms''))"

definition detect_three_candlestick_patterns :: "detector \<Rightarrow> string list" where
  "detect_three_candlestick_patterns d =
     (if length (df d) < 3 then []
      else
        (let first = iloc_neg (df d) 3;
             second = iloc_neg (df d) 2;
             third = iloc_neg (df d) 1
         in append_if (is_morning_star first second third) ''Morning Star'' @
            append_if (is_evening_star first second third) ''Evening Star'' @
            append_if (is_three_white_soldiers first second third) ''Three White Soldiers'' @
            append_if (is_three_black_crows first second third) ''Three Black Crows'' @
            append_if (is_three_inside_up first second third) ''Three Inside Up'' @
            append_if (is_three_inside_down first second third) ''Three Inside Down'' @
            append_if (is_three_outside_up first second third) ''Three Outside Up'' @
            append_if (is_three_outside_down first second third) ''Three Outside Down''))"

definition detect_all_patterns :: "detector \<Rightarrow> string list" where
  "detect_all_patterns d =
     detect_single_candlestick_patterns d @
     detect_two_candlestick_patterns d @
     detect_three_candlestick_patterns d"

text \<open>The public entry point.\<close>

definition detect_candlestick_patterns :: "data_frame \<Rightarrow> error + string list" where
  "detect_candlestick_patterns f =
     (if df_empty f \<or> length (rows f) < 1 then Inr []
      else (case prepare_data f of
              Inl e \<Rightarrow> Inl e
            | Inr d \<Rightarrow> Inr (detect_all_patterns d)))"

subsection \<open>The label vocabulary and the rule tables of the specification\<close>

text \<open>The labels of each tier, in the order of the specification's tables.\<close>

definition doji_family :: "string list" where
  "doji_family = [''Doji'', ''Dragonfly Doji'', ''Gravestone Doji'', ''Long-legged Doji'']"

definition marubozu_labels :: "string list" where
  "marubozu_labels = [''Bullish Marubozu'', ''Bearish Marubozu'']"

definition baseline_labels :: "string list" where
  "baseline_labels =
     [''Hammer'', ''Inverted Hammer'', ''Hanging Man'', ''Shooting Star'', ''Spinning Top''] @
     marubozu_labels"

definition single_labels :: "string list" where
  "single_labels = doji_family @ baseline_labels"

definition two_labels :: "string list" where
  "two_labels =
     [''Bullish Engulfing'', ''Bearish Engulfing'', ''Bullish Harami'', ''Bearish Harami'',
      ''Harami Cross'', ''Piercing Pattern'', ''Dark Cloud Cover'', ''Tweezer Tops'',
      ''Tweezer Bottoms'']"

definition three_labels :: "string list" where
  "three_labels =
     [''Morning Star'', ''Evening Star'', ''Three White Soldiers'', ''Three Black Crows'',
      ''Three Inside Up'', ''Three Inside Down'', ''Three Outside Up'', ''Three Outside Down'']"

definition pattern_labels :: "string list" where
  "pattern_labels = single_labels @ two_labels @ three_labels"

text \<open>
  The Doji family as the specification words it: the conditions are tried in the order
  Dragonfly, Gravestone, plain Doji with both shadows at most a tenth of the range,
  Long-legged, plain Doji, and the first one that holds gives the label.
\<close>

definition doji_priority :: "candle \<Rightarrow> (bool \<times> string) list" where
  "doji_priority c =
     [(is_dragonfly_doji c, ''Dragonfly Doji''),
      (is_gravestone_doji c, ''Gravestone Doji''),
      (is_doji c None \<and> upper_shadow c \<le> 0.1 * total_size c
                      \<and> lower_shadow c \<le> 0.1 * total_size c, ''Doji''),
      (is_long_legged_doji c, ''Long-legged Doji''),
      (is_doji c None, ''Doji'')]"

definition doji_first_match :: "candle \<Rightarrow> string list" where
  "doji_first_match c =
     (case find fst (doji_priority c) of None \<Rightarrow> [] | Some (cond, name) \<Rightarrow> [name])"

text \<open>
  The aggregator as the specification words it: a table of named conditions per tier,
  evaluated in table order; the matches are the names whose condition holds.
\<close>

definition matches :: "(string \<times> bool) list \<Rightarrow> string list" where
  "matches table = map fst (filter snd table)"

definition single_table :: "candle \<Rightarrow> real \<Rightarrow> (string \<times> bool) list" where
  "single_table c avg_body =
     [(''Doji'', doji_first_match c = [''Doji'']),
      (''Dragonfly Doji'', doji_first_match c = [''Dragonfly Doji'']),
      (''Gravestone Doji'', doji_first_match c = [''Gravestone Doji'']),
      (''Long-legged Doji'', doji_first_match c = [''Long-legged Doji'']),
      (''Hammer'', is_hammer c avg_body),
      (''Inverted Hammer'', is_inverted_hammer c avg_body),
      (''Hanging Man'', is_hanging_man c avg_body),
      (''Shooting Star'', is_shooting_star c avg_body),
      (''Spinning Top'', is_spinning_top c avg_body),
      (''Bullish Marubozu'', is_marubozu c avg_body \<and> is_bullish c),
      (''Bearish Marubozu'', is_marubozu c avg_body \<and> is_bearish c)]"

definition two_table :: "candle \<Rightarrow> candle \<Rightarrow> (string \<times> bool) list" where
  "two_table current previous =
     [(''Bullish Engulfing'', is_bullish_engulfing current previous),
      (''Bearish Engulfing'', is_bearish_engulfing current previous),
      (''Bullish Harami'', is_bullish_harami current previous),
      (''Bearish Harami'', is_bearish_harami current previous),
      (''Harami Cross'', is_harami_cross current previous),
      (''Piercing Pattern'', is_piercing_pattern current previous),
      (''Dark Cloud Cover'', is_dark_cloud_cover current previous),
      (''Tweezer Tops'', is_tweezer_tops current previous),
      (''Tweezer Bottoms'', is_tweezer_bottoms current previous)]"

definition three_table :: "candle \<Rightarrow> candle \<Rightarrow> candle \<Rightarrow> (string \<times> bool) list" where
  "three_table first second third =
     [(''Morning Star'', is_morning_star first second third),
      (''Evening Star'', is_evening_star first second third),
      (''Three White Soldiers'', is_three_white_soldiers first second third),
      (''Three Black Crows'', is_three_black_crows first second third),
      (''Three Inside Up'', is_three_inside_up first second third),
      (''Three Inside Down'', is_three_inside_down first second third),
      (''Three Outside Up'', is_three_outside_up first second third),
      (''Three Outside Down'', is_three_outside_down first second third)]"

subsection \<open>The single-candle tier over float64 with overflow\<close>

text \<open>
  The definitions above compute with real numbers, where a difference of two prices is always
  a number.  In the source the columns are float64: a difference of two finite prices whose
  magnitude is too large becomes an infinity.  This subsection repeats the feature derivation
  and \<^verbatim>\<open>_detect_single_candlestick_patterns\<close> with that case made explicit.

  A float64 value is a finite number, an infinity or NaN.  A finite result is kept exact
  (rounding to 53 significant bits is not modelled); a result whose magnitude reaches
  \<open>2 ^ 1024 - 2 ^ 970\<close>, half a unit in the last place above the largest finite double,
  becomes an infinity.  The prices of the input are finite.
\<close>

datatype float64 = Finite real | PosInf | NegInf | NaN

definition overflow_threshold :: real where
  "overflow_threshold = 2 ^ 1024 - 2 ^ 970"

definition f64_of_real :: "real \<Rightarrow> float64" where
  "f64_of_real x =
     (if overflow_threshold \<le> x then PosInf
      else if x \<le> - overflow_threshold then NegInf
      else Finite x)"

text \<open>\<^verbatim>\<open>abs(x)\<close>\<close>

fun f64_abs :: "float64 \<Rightarrow> float64" where
  "f64_abs (Finite x) = Finite \<bar>x\<bar>"
| "f64_abs PosInf = PosInf"
| "f64_abs NegInf = PosInf"
| "f64_abs NaN = NaN"

text \<open>
  \<^verbatim>\<open>k * x\<close> for a finite constant \<open>k > 0\<close>: the single-candle predicates multiply by
  0.1, 0.2 and 2, and the rolling mean divides by a count.
\<close>

fun f64_scale :: "real \<Rightarrow> float64 \<Rightarrow> float64" where
  "f64_scale k (Finite x) = f64_of_real (k * x)"
| "f64_scale k PosInf = PosInf"
| "f64_scale k NegInf = NegInf"
| "f64_scale k NaN = NaN"

text \<open>\<^verbatim>\<open>x < y\<close> and \<^verbatim>\<open>x <= y\<close>; a comparison with NaN is false.\<close>

fun f64_lt :: "float64 \<Rightarrow> float64 \<Rightarrow> bool" where
  "f64_lt NaN y = False"
| "f64_lt x NaN = False"
| "f64_lt (Finite x) (Finite y) = (x < y)"
| "f64_lt (Finite x) PosInf = True"
| "f64_lt (Finite x) NegInf = False"
| "f64_lt PosInf y = False"
| "f64_lt NegInf NegInf = False"
| "f64_lt NegInf y = True"

fun f64_le :: "float64 \<Rightarrow> float64 \<Rightarrow> bool" where
  "f64_le NaN y = False"
| "f64_le x NaN = False"
| "f64_le (Finite x) (Finite y) = (x \<le> y)"
| "f64_le (Finite x) PosInf = True"
| "f64_le (Finite x) NegInf = False"
| "f64_le PosInf PosInf = True"
| "f64_le PosInf y = False"
| "f64_le NegInf y = True"

record candle64 =
  open64 :: real
  high64 :: real
  low64 :: real
  close64 :: real
  body64 :: float64
  body_size64 :: float64
  upper_shadow64 :: float64
  lower_shadow64 :: float64
  total_size64 :: float64
  is_bullish64 :: bool
  is_bearish64 :: bool

definition derive_features64 :: "(string \<Rightarrow> real) \<Rightarrow> candle64" where
  "derive_features64 r =
     (let op = r ''open''; hi = r ''high''; lo = r ''low''; cl = r ''close'';
          b = f64_of_real (cl - op)
      in \<lparr> open64 = op, high64 = hi, low64 = lo, close64 = cl,
           body64 = b,
           body_size64 = f64_abs b,
           upper_shadow64 = f64_of_real (hi - max op cl),
           lower_shadow64 = f64_of_real (min op cl - lo),
           total_size64 = f64_of_real (hi - lo),
           is_bullish64 = f64_lt (Finite 0) b,
           is_bearish64 = f64_lt b (Finite 0) \<rparr>)"

text \<open>
  \<^verbatim>\<open>series.rolling(window=w, min_periods=m).mean()\<close> on float64 values.  pandas replaces the
  infinities of the series by NaN before it computes the windows, and NaN is not an
  observation: the entry is the sum of the finite values of the window divided by their
  number, and NaN when there are fewer than \<open>m\<close> of them.
\<close>

fun finite_values :: "float64 list \<Rightarrow> real list" where
  "finite_values [] = []"
| "finite_values (Finite x # xs) = x # finite_values xs"
| "finite_values (y # xs) = finite_values xs"

definition rolling_mean64 :: "nat \<Rightarrow> nat \<Rightarrow> float64 list \<Rightarrow> float64 list" where
  "rolling_mean64 w m xs =
     map (\<lambda>i. let obs = finite_values (drop (Suc i - w) (take (Suc i) xs))
              in if m \<le> length obs \<and> 0 < length obs
                 then f64_scale (1 / real (length obs)) (f64_of_real (sum_list obs))
                 else NaN)
         [0..<length xs]"

record detector64 =
  df64 :: "candle64 list"
  avg_body_size64 :: "float64 list"
  avg_total_size64 :: "float64 list"

definition prepare_data64 :: "data_frame \<Rightarrow> error + detector64" where
  "prepare_data64 f =
     (case check_required (columns f) required_cols of
        Some e \<Rightarrow> Inl e
      | None \<Rightarrow>
          (let cs = map derive_features64 (rows f)
           in Inr \<lparr> df64 = cs,
                    avg_body_size64 = rolling_mean64 20 1 (map body_size64 cs),
                    avg_total_size64 = rolling_mean64 20 1 (map total_size64 cs) \<rparr>))"

definition is_doji64 :: "candle64 \<Rightarrow> float64 \<Rightarrow> bool" where
  "is_doji64 candle avg_total \<longleftrightarrow>
     f64_le (body_size64 candle) (f64_scale 0.1 (total_size64 candle))"

definition is_dragonfly_doji64 :: "candle64 \<Rightarrow> bool" where
  "is_dragonfly_doji64 candle \<longleftrightarrow>
     f64_le (body_size64 candle) (f64_scale 0.1 (total_size64 candle)) \<and>
     f64_le (upper_shadow64 candle) (f64_scale 0.1 (total_size64 candle)) \<and>
     f64_lt (f64_scale 2 (body_size64 candle)) (lower_shadow64 candle)"

definition is_gravestone_doji64 :: "candle64 \<Rightarrow> bool" where
  "is_gravestone_doji64 candle \<longleftrightarrow>
     f64_le (body_size64 candle) (f64_scale 0.1 (total_size64 candle)) \<and>
     f64_le (lower_shadow64 candle) (f64_scale 0.1 (total_size64 candle)) \<and>
     f64_lt (f64_scale 2 (body_size64 candle)) (upper_shadow64 candle)"

definition is_long_legged_doji64 :: "candle64 \<Rightarrow> bool" where
  "is_long_legged_doji64 candle \<longleftrightarrow>
     f64_le (body_size64 candle) (f64_scale 0.1 (total_size64 candle)) \<and>
     f64_lt (f64_scale 0.2 (total_size64 candle)) (upper_shadow64 candle) \<and>
     f64_lt (f64_scale 0.2 (total_size64 candle)) (lower_shadow64 candle)"

definition is_hammer64 :: "candle64 \<Rightarrow> float64 \<Rightarrow> bool" where
  "is_hammer64 candle avg_body \<longleftrightarrow>
     f64_lt (f64_scale 2 avg_body) (lower_shadow64 candle) \<and>
     f64_lt (upper_shadow64 candle) avg_body \<and>
     f64_lt (body_size64 candle) avg_body"

definition is_inverted_hammer64 :: "candle64 \<Rightarrow> float64 \<Rightarrow> bool" where
  "is_inverted_hammer64 candle avg_body \<longleftrightarrow>
     f64_lt (f64_scale 2 avg_body) (upper_shadow64 candle) \<and>
     f64_lt (lower_shadow64 candle) avg_body \<and>
     f64_lt (body_size64 candle) avg_body"

definition is_hanging_man64 :: "candle64 \<Rightarrow> float64 \<Rightarrow> bool" where
  "is_hanging_man64 candle avg_body \<longleftrightarrow>
     f64_lt (f64_scale 2 avg_body) (lower_shadow64 candle) \<and>
     f64_lt (upper_shadow64 candle) avg_body \<and>
     f64_lt (body_size64 candle) avg_body \<and>
     is_bearish64 candle"

definition is_shooting_star64 :: "candle64 \<Rightarrow> float64 \<Rightarrow> bool" where
  "is_shooting_star64 candle avg_body \<longleftrightarrow>
     f64_lt (f64_scale 2 avg_body) (upper_shadow64 candle) \<and>
     f64_lt (lower_shadow64 candle) avg_body \<and>
     f64_lt (body_size64 candle) avg_body \<and>
     is_bearish64 candle"

definition is_spinning_top64 :: "candle64 \<Rightarrow> float64 \<Rightarrow> bool" where
  "is_spinning_top64 candle avg_body \<longleftrightarrow>
     f64_lt avg_body (upper_shadow64 candle) \<and>
     f64_lt avg_body (lower_shadow64 candle) \<and>
     f64_lt (body_size64 candle) avg_body"

definition is_marubozu64 :: "candle64 \<Rightarrow> float64 \<Rightarrow> bool" where
  "is_marubozu64 candle avg_body \<longleftrightarrow>
     f64_lt (f64_scale 2 avg_body) (body_size64 candle) \<and>
     f64_lt (upper_shadow64 candle) (f64_scale 0.1 (body_size64 candle)) \<and>
     f64_lt (lower_shadow64 candle) (f64_scale 0.1 (body_size64 candle))"

definition detect_single_candlestick_patterns64 :: "detector64 \<Rightarrow> string list" where
  "detect_single_candlestick_patterns64 d =
     (if length (df64 d) < 1 then []
      else
        (let current = iloc_neg (df64 d) 1;
             avg_body = iloc_neg (avg_body_size64 d) 1;
             avg_total = iloc_neg (avg_total_size64 d) 1
         in (if is_doji64 current avg_total then
               (if is_dragonfly_doji64 current then [''Dragonfly Doji'']
                else if is_gravestone_doji64 current then [''Gravestone Doji'']
                else if f64_le (upper_shadow64 current) (f64_scale 0.1 (total_size64 current)) \<and>
                        f64_le (lower_shadow64 current) (f64_scale 0.1 (total_size64 current))
                  then [''Doji'']
                else if is_long_legged_doji64 current then [''Long-legged Doji'']
                else [''Doji''])
             else []) @
            append_if (is_hammer64 current avg_body) ''Hammer'' @
            append_if (is_inverted_hammer64 current avg_body) ''Inverted Hammer'' @
            append_if (is_hanging_man64 current avg_body) ''Hanging Man'' @
            append_if (is_shooting_star64 current avg_body) ''Shooting Star'' @
            append_if (is_spinning_top64 current avg_body) ''Spinning Top'' @
            (if is_marubozu64 current avg_body then
               (if is_bullish64 current then [''Bullish Marubozu''] else [''Bearish Marubozu''])
             else [])))"

subsection \<open>Example inputs\<close>

text \<open>A row with the four price columns; every other column reads 0.\<close>

definition ohlc :: "real \<Rightarrow> real \<Rightarrow> real \<Rightarrow> real \<Rightarrow> string \<Rightarrow> real" where
  "ohlc op hi lo cl col =
     (if col = ''open'' then op else if col = ''high'' then hi
      else if col = ''low'' then lo else if col = ''close'' then cl else 0)"

definition ohlc_columns :: "string list" where
  "ohlc_columns = [''open'', ''high'', ''low'', ''close'', ''volume'']"

text \<open>
  Three candles: a bearish one, a small bearish one, and a bullish one with a long lower
  shadow that opens below the second candle's close and closes above its open.
\<close>

definition three_candles :: data_frame where
  "three_candles =
     \<lparr> columns = ohlc_columns,
       rows = [ohlc 110 111 99 100, ohlc 105 106 103 104, ohlc 103 107 90 106] \<rparr>"

text \<open>A single candle whose four prices coincide.\<close>

definition flat_candle :: data_frame where
  "flat_candle = \<lparr> columns = ohlc_columns, rows = [ohlc 100 100 100 100] \<rparr>"

text \<open>
  A single candle with no body and no upper shadow: it meets the Dragonfly condition and
  the plain Doji condition.
\<close>

definition dragonfly_candle :: data_frame where
  "dragonfly_candle = \<lparr> columns = ohlc_columns, rows = [ohlc 100 100 90 100] \<rparr>"

text \<open>A bearish candle followed by a small bullish candle that lies inside its body.\<close>

definition harami_pair :: data_frame where
  "harami_pair =
     \<lparr> columns = ohlc_columns,
       rows = [ohlc 110 111 99 100, ohlc 104.9 107 103 105.1] \<rparr>"

text \<open>A frame with the price columns and no rows.\<close>

definition no_candles :: data_frame where
  "no_candles = \<lparr> columns = ohlc_columns, rows = [] \<rparr>"

text \<open>\<^verbatim>\<open>pd.DataFrame()\<close>, the input of \<^verbatim>\<open>test_empty_dataframe\<close>.\<close>

definition empty_frame :: data_frame where
  "empty_frame = \<lparr> columns = [], rows = [] \<rparr>"

text \<open>\<^verbatim>\<open>pd.DataFrame({'open': [100]})\<close>, the input of \<^verbatim>\<open>test_invalid_dataframe\<close>.\<close>

definition invalid_frame :: data_frame where
  "invalid_frame = \<lparr> columns = [''open''], rows = [ohlc 100 0 0 0] \<rparr>"

text \<open>A frame with the \<^verbatim>\<open>open\<close> and \<^verbatim>\<open>volume\<close> columns and no rows.\<close>

definition no_rows :: data_frame where
  "no_rows = \<lparr> columns = [''open'', ''volume''], rows = [] \<rparr>"

text \<open>
  Two small candles followed by a bullish candle with a body of 10 and shadows of a half.
\<close>

definition marubozu_candles :: data_frame where
  "marubozu_candles =
     \<lparr> columns = ohlc_columns,
       rows = [ohlc 100 102 99 101, ohlc 100 102 99 101, ohlc 100 110.5 99.5 110] \<rparr>"

text \<open>
  The same, with the last candle scaled up: \<open>open = - 7 * 2 ^ 1020\<close>,
  \<open>high = 2 ^ 1023\<close>, \<open>low = - 2 ^ 1023\<close>, \<open>close = 7 * 2 ^ 1020\<close>.  The four prices are
  finite doubles and \<open>low \<le> open \<le> close \<le> high\<close>; \<open>close - open\<close> is finite and
  \<open>high - low\<close> is \<open>2 ^ 1024\<close>, which overflows.
\<close>

definition big :: real where
  "big = 2 ^ 1020"

definition overflow_candles :: data_frame where
  "overflow_candles =
     \<lparr> columns = ohlc_columns,
       rows = [ohlc 100 102 99 101, ohlc 100 102 99 101,
               ohlc (- 7 * big) (8 * big) (- 8 * big) (7 * big)] \<rparr>"

section \<open>Properties\<close>

lemmas predicate_defs =
  is_doji_def is_dragonfly_doji_def is_gravestone_doji_def is_long_legged_doji_def
  is_hammer_def is_inverted_hammer_def is_hanging_man_def is_shooting_star_def
  is_spinning_top_def is_marubozu_def
  is_bullish_engulfing_def is_bearish_engulfing_def is_bullish_harami_def
  is_bearish_harami_def is_harami_cross_def is_piercing_pattern_def is_dark_cloud_cover_def
  is_tweezer_tops_def is_tweezer_bottoms_def
  is_morning_star_def is_evening_star_def is_three_white_soldiers_def is_three_black_crows_def
  is_three_inside_up_def is_three_inside_down_def is_three_outside_up_def
  is_three_outside_down_def

lemmas aggregator_defs =
  append_if_def doji_patterns_def baseline_patterns_def
  detect_single_candlestick_patterns_def detect_two_candlestick_patterns_def
  detect_three_candlestick_patterns_def detect_all_patterns_def

lemmas frame_defs =
  detect_candlestick_patterns_def df_empty_def prepare_data_def required_cols_def
  derive_features_def rolling_mean_def rolling_window_def iloc_neg_def ohlc_def
  ohlc_columns_def Let_def

lemmas example_defs =
  three_candles_def flat_candle_def dragonfly_candle_def harami_pair_def no_candles_def
  empty_frame_def invalid_frame_def no_rows_def

subsection \<open>Schema validation\<close>

lemma check_required_None: "check_required cols rs = None \<longleftrightarrow> set rs \<subseteq> set cols"
  by (induction rs) auto

lemma check_required_Some:
  "\<not> set rs \<subseteq> set cols \<Longrightarrow>
   \<exists>col \<in> set rs. col \<notin> set cols \<and>
     check_required cols rs = Some (ValueError (''Missing required column: '' @ col))"
  by (induction rs) auto

lemma prepare_data_Inr:
  assumes "set required_cols \<subseteq> set (columns f)"
  shows "prepare_data f =
    Inr \<lparr> df = map derive_features (rows f),
          avg_body_size = rolling_mean 20 1 (map body_size (map derive_features (rows f))),
          avg_total_size = rolling_mean 20 1 (map total_size (map derive_features (rows f))) \<rparr>"
proof -
  from assms have "check_required (columns f) required_cols = None"
    by (simp only: check_required_None)
  then show ?thesis
    by (simp add: prepare_data_def Let_def)
qed

lemma prepare_data_InrD:
  assumes "prepare_data f = Inr d"
  shows "set required_cols \<subseteq> set (columns f)"
    and "df d = map derive_features (rows f)"
    and "avg_body_size d = rolling_mean 20 1 (map body_size (df d))"
    and "avg_total_size d = rolling_mean 20 1 (map total_size (df d))"
proof -
  from assms have n: "check_required (columns f) required_cols = None"
    by (cases "check_required (columns f) required_cols") (simp_all add: prepare_data_def)
  then show "set required_cols \<subseteq> set (columns f)"
    by (simp only: check_required_None)
  from assms n show "df d = map derive_features (rows f)"
    by (auto simp: prepare_data_def Let_def)
  from assms n show "avg_body_size d = rolling_mean 20 1 (map body_size (df d))"
    by (auto simp: prepare_data_def Let_def)
  from assms n show "avg_total_size d = rolling_mean 20 1 (map total_size (df d))"
    by (auto simp: prepare_data_def Let_def)
qed

lemma prepare_data_Inl:
  assumes "\<not> set required_cols \<subseteq> set (columns f)"
  shows "\<exists>col \<in> set required_cols. col \<notin> set (columns f) \<and>
           prepare_data f = Inl (ValueError (''Missing required column: '' @ col))"
proof -
  from check_required_Some [OF assms] obtain col where
    "col \<in> set required_cols" "col \<notin> set (columns f)"
    "check_required (columns f) required_cols =
       Some (ValueError (''Missing required column: '' @ col))"
    by blast
  then show ?thesis
    by (auto simp: prepare_data_def)
qed

subsection \<open>Rolling means\<close>

lemma length_rolling_mean: "length (rolling_mean w m xs) = length xs"
  by (simp add: rolling_mean_def)

lemma length_rolling_window:
  "i < length xs \<Longrightarrow> length (rolling_window w xs i) = min w (Suc i)"
  by (auto simp: rolling_window_def)

lemma rolling_mean_nth_window:
  assumes "i < length xs" and "0 < w" and "m \<le> 1"
  shows "rolling_mean w m xs ! i =
           Some (sum_list (rolling_window w xs i) / real (length (rolling_window w xs i)))"
proof -
  have len: "length (rolling_window w xs i) = min w (Suc i)"
    using assms(1) by (rule length_rolling_window)
  with assms have c: "m \<le> length (rolling_window w xs i) \<and> 0 < length (rolling_window w xs i)"
    by simp
  have "rolling_mean w m xs ! i =
          (let win = rolling_window w xs i
           in if m \<le> length win \<and> 0 < length win
              then Some (sum_list win / real (length win)) else None)"
    using assms(1) by (simp add: rolling_mean_def)
  also have "\<dots> = Some (sum_list (rolling_window w xs i) / real (length (rolling_window w xs i)))"
    using c by (simp only: Let_def simp_thms if_True)
  finally show ?thesis .
qed

lemma iloc_neg_map:
  "0 < k \<Longrightarrow> k \<le> length xs \<Longrightarrow> iloc_neg (map g xs) k = g (iloc_neg xs k)"
  by (simp add: iloc_neg_def)

lemma rolling_mean_last:
  assumes "xs \<noteq> []"
  shows "\<exists>win. set win \<subseteq> set xs \<and>
           iloc_neg (rolling_mean 20 1 xs) 1 = Some (sum_list win / real (length win))"
proof -
  let ?i = "length xs - 1"
  from assms have i: "?i < length xs" by simp
  have sub: "set (rolling_window 20 xs ?i) \<subseteq> set xs"
    unfolding rolling_window_def
    by (meson set_drop_subset set_take_subset subset_trans)
  have "iloc_neg (rolling_mean 20 1 xs) 1 = rolling_mean 20 1 xs ! ?i"
    by (simp add: iloc_neg_def length_rolling_mean)
  also have "\<dots> = Some (sum_list (rolling_window 20 xs ?i) / real (length (rolling_window 20 xs ?i)))"
    using i by (intro rolling_mean_nth_window) auto
  finally show ?thesis
    using sub by blast
qed

lemma rolling_mean_last_nonneg:
  assumes "xs \<noteq> []" and "\<forall>x \<in> set xs. 0 \<le> x"
  shows "\<exists>a. iloc_neg (rolling_mean 20 1 xs) 1 = Some a \<and> 0 \<le> a"
proof -
  from rolling_mean_last [OF assms(1)] obtain win where
    win: "set win \<subseteq> set xs"
      "iloc_neg (rolling_mean 20 1 xs) 1 = Some (sum_list win / real (length win))"
    by blast
  from win(1) assms(2) have "0 \<le> sum_list win"
    by (intro sum_list_nonneg) auto
  then have "0 \<le> sum_list win / real (length win)"
    by simp
  with win(2) show ?thesis by blast
qed

subsection \<open>Derived features\<close>

lemma derive_features_simps:
  "c_open (derive_features r) = r ''open''"
  "c_high (derive_features r) = r ''high''"
  "c_low (derive_features r) = r ''low''"
  "c_close (derive_features r) = r ''close''"
  "body (derive_features r) = r ''close'' - r ''open''"
  "body_size (derive_features r) = \<bar>r ''close'' - r ''open''\<bar>"
  "upper_shadow (derive_features r) = r ''high'' - max (r ''open'') (r ''close'')"
  "lower_shadow (derive_features r) = min (r ''open'') (r ''close'') - r ''low''"
  "total_size (derive_features r) = r ''high'' - r ''low''"
  "is_bullish (derive_features r) \<longleftrightarrow> r ''close'' - r ''open'' > 0"
  "is_bearish (derive_features r) \<longleftrightarrow> r ''close'' - r ''open'' < 0"
  by (simp_all add: derive_features_def Let_def)

lemma body_size_nonneg: "0 \<le> body_size (derive_features r)"
  by (simp add: derive_features_simps)

lemma total_size_split:
  "total_size (derive_features r) =
     upper_shadow (derive_features r) + body_size (derive_features r) +
     lower_shadow (derive_features r)"
  by (simp add: derive_features_simps max_def min_def)

lemma not_bullish_and_bearish:
  "\<not> (is_bullish (derive_features r) \<and> is_bearish (derive_features r))"
  by (simp add: derive_features_simps)

subsection \<open>From the entry point to the detector\<close>

lemma detect_not_empty:
  assumes "\<not> df_empty f"
  shows "detect_candlestick_patterns f =
           (case prepare_data f of Inl e \<Rightarrow> Inl e | Inr d \<Rightarrow> Inr (detect_all_patterns d))"
  using assms by (auto simp: detect_candlestick_patterns_def df_empty_def)

lemma detect_prepared:
  assumes "prepare_data f = Inr d" and "rows f \<noteq> []"
  shows "detect_candlestick_patterns f = Inr (detect_all_patterns d)"
proof -
  from prepare_data_InrD(1) [OF assms(1)] have "columns f \<noteq> []"
    by (auto simp: required_cols_def)
  with assms(2) have "\<not> df_empty f"
    by (simp add: df_empty_def)
  with assms(1) show ?thesis
    by (simp add: detect_not_empty)
qed

lemma tail_candle:
  assumes "prepare_data f = Inr d" and "0 < k" and "k \<le> length (rows f)"
  shows "iloc_neg (df d) k = derive_features (iloc_neg (rows f) k)"
  using prepare_data_InrD(2) [OF assms(1)] assms(2,3) by (simp add: iloc_neg_map)

lemma length_df:
  assumes "prepare_data f = Inr d"
  shows "length (df d) = length (rows f)"
  using prepare_data_InrD(2) [OF assms] by simp

lemma tail_baselines:
  assumes "prepare_data f = Inr d" and "rows f \<noteq> []"
  shows "\<exists>avg_body avg_total. iloc_neg (avg_body_size d) 1 = Some avg_body \<and> 0 \<le> avg_body \<and>
           iloc_neg (avg_total_size d) 1 = Some avg_total"
proof -
  note D = prepare_data_InrD [OF assms(1)]
  from D(2) assms(2) have ne: "map body_size (df d) \<noteq> []" "map total_size (df d) \<noteq> []"
    by simp_all
  have "\<forall>x \<in> set (map body_size (df d)). 0 \<le> x"
    by (auto simp: D(2) body_size_nonneg)
  from rolling_mean_last_nonneg [OF ne(1) this] D(3)
  obtain a where a: "iloc_neg (avg_body_size d) 1 = Some a" "0 \<le> a"
    by auto
  from rolling_mean_last [OF ne(2)] D(4)
  obtain t where "iloc_neg (avg_total_size d) 1 = Some t"
    by auto
  with a show ?thesis by blast
qed

subsection \<open>The labels each block can emit\<close>

lemma set_doji_patterns: "set (doji_patterns c a) \<subseteq> set doji_family"
  by (auto simp: doji_patterns_def doji_family_def)

lemma set_baseline_patterns: "set (baseline_patterns c a) \<subseteq> set baseline_labels"
  by (cases a)
     (auto simp: baseline_patterns_def baseline_labels_def marubozu_labels_def append_if_def)

lemma set_detect_single:
  "set (detect_single_candlestick_patterns d) \<subseteq> set single_labels"
proof (cases "length (df d) < 1")
  case True
  then show ?thesis
    by (simp add: detect_single_candlestick_patterns_def)
next
  case False
  have "set (doji_patterns (iloc_neg (df d) 1) (iloc_neg (avg_total_size d) 1) @
             baseline_patterns (iloc_neg (df d) 1) (iloc_neg (avg_body_size d) 1))
          \<subseteq> set doji_family \<union> set baseline_labels"
    using set_doji_patterns [of "iloc_neg (df d) 1" "iloc_neg (avg_total_size d) 1"]
      set_baseline_patterns [of "iloc_neg (df d) 1" "iloc_neg (avg_body_size d) 1"]
    by auto
  with False show ?thesis
    by (simp add: detect_single_candlestick_patterns_def single_labels_def Let_def)
qed

lemma set_detect_two: "set (detect_two_candlestick_patterns d) \<subseteq> set two_labels"
  by (auto simp: detect_two_candlestick_patterns_def two_labels_def append_if_def Let_def)

lemma set_detect_three: "set (detect_three_candlestick_patterns d) \<subseteq> set three_labels"
  by (auto simp: detect_three_candlestick_patterns_def three_labels_def append_if_def Let_def)

lemma distinct_pattern_labels: "distinct pattern_labels"
  by (simp add: pattern_labels_def single_labels_def doji_family_def baseline_labels_def
      marubozu_labels_def two_labels_def three_labels_def)

lemma labels_disjoint:
  "set doji_family \<inter> set baseline_labels = {}"
  "set single_labels \<inter> set two_labels = {}"
  "set single_labels \<inter> set three_labels = {}"
  "set two_labels \<inter> set three_labels = {}"
  by (simp_all add: single_labels_def doji_family_def baseline_labels_def
      marubozu_labels_def two_labels_def three_labels_def)

subsection \<open>The tiers as tables\<close>

lemma detect_two_matches:
  assumes "2 \<le> length (df d)"
  shows "detect_two_candlestick_patterns d =
           matches (two_table (iloc_neg (df d) 1) (iloc_neg (df d) 2))"
  using assms
  by (simp add: detect_two_candlestick_patterns_def matches_def two_table_def append_if_def
      Let_def)

lemma detect_three_matches:
  assumes "3 \<le> length (df d)"
  shows "detect_three_candlestick_patterns d =
           matches (three_table (iloc_neg (df d) 3) (iloc_neg (df d) 2) (iloc_neg (df d) 1))"
  using assms
  by (simp add: detect_three_candlestick_patterns_def matches_def three_table_def append_if_def
      Let_def)

lemma in_detect_all_two:
  assumes "x \<in> set two_labels"
  shows "x \<in> set (detect_all_patterns d) \<longleftrightarrow> x \<in> set (detect_two_candlestick_patterns d)"
proof -
  from assms labels_disjoint(2,4) have "x \<notin> set single_labels" "x \<notin> set three_labels"
    by blast+
  with set_detect_single [of d] set_detect_three [of d]
  have "x \<notin> set (detect_single_candlestick_patterns d)"
    "x \<notin> set (detect_three_candlestick_patterns d)"
    by blast+
  then show ?thesis
    by (simp add: detect_all_patterns_def)
qed

lemma engulfing_in_all:
  assumes "2 \<le> length (df d)"
  shows "''Bullish Engulfing'' \<in> set (detect_all_patterns d) \<longleftrightarrow>
           is_bullish_engulfing (iloc_neg (df d) 1) (iloc_neg (df d) 2)"
    and "''Bearish Engulfing'' \<in> set (detect_all_patterns d) \<longleftrightarrow>
           is_bearish_engulfing (iloc_neg (df d) 1) (iloc_neg (df d) 2)"
    and "''Harami Cross'' \<in> set (detect_all_patterns d) \<longleftrightarrow>
           is_harami_cross (iloc_neg (df d) 1) (iloc_neg (df d) 2)"
proof -
  have "''Bullish Engulfing'' \<in> set two_labels" "''Bearish Engulfing'' \<in> set two_labels"
    "''Harami Cross'' \<in> set two_labels"
    by (simp_all add: two_labels_def)
  note in_detect_all_two [OF this(1)] in_detect_all_two [OF this(2)] in_detect_all_two [OF this(3)]
  then show "''Bullish Engulfing'' \<in> set (detect_all_patterns d) \<longleftrightarrow>
           is_bullish_engulfing (iloc_neg (df d) 1) (iloc_neg (df d) 2)"
    and "''Bearish Engulfing'' \<in> set (detect_all_patterns d) \<longleftrightarrow>
           is_bearish_engulfing (iloc_neg (df d) 1) (iloc_neg (df d) 2)"
    and "''Harami Cross'' \<in> set (detect_all_patterns d) \<longleftrightarrow>
           is_harami_cross (iloc_neg (df d) 1) (iloc_neg (df d) 2)"
    by (simp_all add: detect_two_matches [OF assms] matches_def two_table_def)
qed

lemma doji_patterns_first_match: "doji_patterns c a = doji_first_match c"
  by (simp add: doji_patterns_def doji_first_match_def doji_priority_def is_doji_def
      is_dragonfly_doji_def is_gravestone_doji_def is_long_legged_doji_def)

lemma length_doji_first_match: "length (doji_first_match c) \<le> 1"
  by (simp add: doji_first_match_def split: option.split prod.split)

lemma filter_doji_family:
  assumes "1 \<le> length (df d)"
  shows "filter (\<lambda>l. l \<in> set doji_family) (detect_all_patterns d) =
           doji_patterns (iloc_neg (df d) 1) (iloc_neg (avg_total_size d) 1)"
proof -
  let ?P = "\<lambda>l. l \<in> set doji_family"
  have 1: "filter ?P (doji_patterns c a) = doji_patterns c a" for c a
    using set_doji_patterns [of c a] by (auto simp: filter_id_conv)
  have 2: "filter ?P (baseline_patterns c a) = []" for c a
    using set_baseline_patterns [of c a] labels_disjoint(1) by (auto simp: filter_empty_conv)
  have s: "set doji_family \<subseteq> set single_labels"
    by (simp add: single_labels_def)
  have 3: "filter ?P (detect_two_candlestick_patterns d) = []"
    using set_detect_two [of d] labels_disjoint(2) s by (auto simp: filter_empty_conv)
  have 4: "filter ?P (detect_three_candlestick_patterns d) = []"
    using set_detect_three [of d] labels_disjoint(3) s by (auto simp: filter_empty_conv)
  from assms have "\<not> length (df d) < 1"
    by linarith
  then have "detect_single_candlestick_patterns d =
      doji_patterns (iloc_neg (df d) 1) (iloc_neg (avg_total_size d) 1) @
      baseline_patterns (iloc_neg (df d) 1) (iloc_neg (avg_body_size d) 1)"
    by (simp only: detect_single_candlestick_patterns_def Let_def if_False)
  then show ?thesis
    by (simp add: detect_all_patterns_def 1 2 3 4)
qed

lemma matches_append: "matches (xs @ ys) = matches xs @ matches ys"
  by (simp add: matches_def)

lemma subseq_matches: "subseq (matches table) (map fst table)"
  by (simp add: matches_def subseq_map)

lemma doji_first_match_cases:
  "doji_first_match c \<in>
     {[], [''Doji''], [''Dragonfly Doji''], [''Gravestone Doji''], [''Long-legged Doji'']}"
  by (simp add: doji_first_match_def doji_priority_def)

lemma marubozu_direction:
  assumes "is_marubozu (derive_features r) avg_body" and "0 \<le> avg_body"
  shows "is_bearish (derive_features r) \<longleftrightarrow> \<not> is_bullish (derive_features r)"
  using assms by (auto simp: is_marubozu_def derive_features_simps)

lemma detect_single_matches:
  assumes "prepare_data f = Inr d" and "rows f \<noteq> []"
  shows "\<exists>avg_body. iloc_neg (avg_body_size d) 1 = Some avg_body \<and>
           detect_single_candlestick_patterns d =
             matches (single_table (iloc_neg (df d) 1) avg_body)"
proof -
  let ?c = "iloc_neg (df d) 1"
  from assms(2) have len: "0 < (1::nat)" "1 \<le> length (rows f)"
    by (simp_all add: Suc_le_eq)
  from tail_candle [OF assms(1) len]
  have c: "?c = derive_features (iloc_neg (rows f) 1)" .
  from tail_baselines [OF assms] obtain avg_body where
    avg: "iloc_neg (avg_body_size d) 1 = Some avg_body" "0 \<le> avg_body"
    by blast
  have dir: "is_marubozu ?c avg_body \<Longrightarrow> is_bearish ?c \<longleftrightarrow> \<not> is_bullish ?c"
    unfolding c using avg(2) by (intro marubozu_direction)
  from assms(2) have "\<not> length (df d) < 1"
    by (simp add: length_df [OF assms(1)])
  then have "detect_single_candlestick_patterns d =
      doji_first_match ?c @ baseline_patterns ?c (Some avg_body)"
    by (simp only: detect_single_candlestick_patterns_def Let_def if_False avg(1)
        doji_patterns_first_match)
  also have "doji_first_match ?c =
      matches [(''Doji'', doji_first_match ?c = [''Doji'']),
               (''Dragonfly Doji'', doji_first_match ?c = [''Dragonfly Doji'']),
               (''Gravestone Doji'', doji_first_match ?c = [''Gravestone Doji'']),
               (''Long-legged Doji'', doji_first_match ?c = [''Long-legged Doji''])]"
    using doji_first_match_cases [of ?c] by (auto simp: matches_def)
  also have "baseline_patterns ?c (Some avg_body) =
      matches [(''Hammer'', is_hammer ?c avg_body),
               (''Inverted Hammer'', is_inverted_hammer ?c avg_body),
               (''Hanging Man'', is_hanging_man ?c avg_body),
               (''Shooting Star'', is_shooting_star ?c avg_body),
               (''Spinning Top'', is_spinning_top ?c avg_body),
               (''Bullish Marubozu'', is_marubozu ?c avg_body \<and> is_bullish ?c),
               (''Bearish Marubozu'', is_marubozu ?c avg_body \<and> is_bearish ?c)]"
    using dir by (simp add: baseline_patterns_def append_if_def matches_def)
  finally have "detect_single_candlestick_patterns d = matches (single_table ?c avg_body)"
    by (simp add: single_table_def matches_append [symmetric])
  with avg(1) show ?thesis
    by blast
qed

lemma table_labels:
  "map fst (single_table c a) = single_labels"
  "map fst (two_table c p) = two_labels"
  "map fst (three_table x y z) = three_labels"
  by (simp_all add: single_table_def two_table_def three_table_def single_labels_def
      doji_family_def baseline_labels_def marubozu_labels_def two_labels_def three_labels_def)

subsection \<open>Float64 overflow\<close>

lemmas float64_defs =
  f64_of_real_def derive_features64_def rolling_mean64_def
  prepare_data64_def is_doji64_def is_dragonfly_doji64_def is_gravestone_doji64_def
  is_long_legged_doji64_def is_hammer64_def is_inverted_hammer64_def is_hanging_man64_def
  is_shooting_star64_def is_spinning_top64_def is_marubozu64_def
  detect_single_candlestick_patterns64_def

lemma big_bounds:
  "1024 \<le> big" "15 * big < overflow_threshold" "overflow_threshold < 16 * big"
proof -
  have "(2::real) ^ 10 \<le> 2 ^ 1020"
    by (rule power_increasing) simp_all
  then show "1024 \<le> big"
    by (simp only: big_def) simp
  have "(2::real) ^ (4 + 1020) = 2 ^ 4 * 2 ^ 1020"
    by (rule power_add)
  then have a: "(2::real) ^ 1024 = 16 * big"
    by (simp only: big_def) simp
  have b: "(2::real) ^ 970 < big"
    unfolding big_def by (rule power_strict_increasing) simp_all
  have c: "(0::real) < 2 ^ 970"
    by (rule zero_less_power) simp
  from a b c show "15 * big < overflow_threshold" "overflow_threshold < 16 * big"
    unfolding overflow_threshold_def by linarith+
qed

lemma overflow_threshold_pos: "0 < overflow_threshold"
  using big_bounds by linarith

lemma f64_of_real_Finite:
  "f64_of_real x = Finite y \<longleftrightarrow> y = x \<and> - overflow_threshold < x \<and> x < overflow_threshold"
  by (auto simp: f64_of_real_def)

lemma f64_abs_Finite:
  "f64_abs (f64_of_real x) = Finite y \<longleftrightarrow>
     y = \<bar>x\<bar> \<and> - overflow_threshold < x \<and> x < overflow_threshold"
  using overflow_threshold_pos by (auto simp: f64_of_real_def)

lemma f64_scale_tenth:
  assumes "- overflow_threshold < x" and "x < overflow_threshold"
  shows "f64_scale 0.1 (Finite x) = Finite (0.1 * x)"
  using assms by (simp add: f64_of_real_Finite)

lemma f64_lt_of_real:
  assumes "f64_lt (f64_of_real u) (Finite y)" and "- overflow_threshold < y"
  shows "u < y"
  using assms by (auto simp: f64_of_real_def split: if_splits)

lemma derive_features64_simps:
  "body_size64 (derive_features64 r) = f64_abs (f64_of_real (r ''close'' - r ''open''))"
  "upper_shadow64 (derive_features64 r) =
     f64_of_real (r ''high'' - max (r ''open'') (r ''close''))"
  "lower_shadow64 (derive_features64 r) =
     f64_of_real (min (r ''open'') (r ''close'') - r ''low'')"
  "total_size64 (derive_features64 r) = f64_of_real (r ''high'' - r ''low'')"
  by (simp_all add: derive_features64_def Let_def)

lemma doji_excludes_marubozu64:
  assumes b: "body_size64 (derive_features64 r) = Finite b"
    and t: "total_size64 (derive_features64 r) = Finite t"
    and doji: "is_doji64 (derive_features64 r) a"
  shows "\<not> is_marubozu64 (derive_features64 r) avg_body"
proof
  let ?c = "derive_features64 r"
  let ?U = "r ''high'' - max (r ''open'') (r ''close'')"
  let ?L = "min (r ''open'') (r ''close'') - r ''low''"
  assume m: "is_marubozu64 ?c avg_body"
  note pos = overflow_threshold_pos
  from b have b': "b = \<bar>r ''close'' - r ''open''\<bar>" "b < overflow_threshold" "0 \<le> b"
    by (auto simp: derive_features64_simps f64_abs_Finite)
  from t have t': "t = r ''high'' - r ''low''" "- overflow_threshold < t"
    "t < overflow_threshold"
    by (auto simp: derive_features64_simps f64_of_real_Finite)
  from b'(2,3) pos have sb: "f64_scale 0.1 (Finite b) = Finite (0.1 * b)"
    by (intro f64_scale_tenth) linarith+
  from t'(2,3) have st: "f64_scale 0.1 (Finite t) = Finite (0.1 * t)"
    by (intro f64_scale_tenth)
  from doji have "f64_le (Finite b) (Finite (0.1 * t))"
    by (simp only: is_doji64_def b t st)
  then have 1: "b \<le> 0.1 * t"
    by simp
  from b'(3) pos have y: "- overflow_threshold < 0.1 * b"
    by linarith
  from m have "f64_lt (f64_of_real ?U) (Finite (0.1 * b))"
    "f64_lt (f64_of_real ?L) (Finite (0.1 * b))"
    by (simp_all only: is_marubozu64_def b sb derive_features64_simps(2,3))
  from f64_lt_of_real [OF this(1) y] f64_lt_of_real [OF this(2) y]
  have 2: "?U < 0.1 * b" "?L < 0.1 * b" .
  have 3: "t = ?U + b + ?L"
    by (simp add: t'(1) b'(1) max_def min_def)
  from 1 2 3 b'(3) show False
    by linarith
qed

lemma tail_candle64:
  assumes "prepare_data64 f = Inr d" and "rows f \<noteq> []"
  shows "iloc_neg (df64 d) 1 = derive_features64 (iloc_neg (rows f) 1)"
    and "\<not> length (df64 d) < 1"
proof -
  from assms(1) have n: "check_required (columns f) required_cols = None"
    by (cases "check_required (columns f) required_cols") (simp_all add: prepare_data64_def)
  with assms(1) have df: "df64 d = map derive_features64 (rows f)"
    by (auto simp: prepare_data64_def Let_def)
  from assms(2) have "0 < (1::nat)" "1 \<le> length (rows f)"
    by (simp_all add: Suc_le_eq)
  then show "iloc_neg (df64 d) 1 = derive_features64 (iloc_neg (rows f) 1)"
    unfolding df by (rule iloc_neg_map)
  from assms(2) show "\<not> length (df64 d) < 1"
    by (simp add: df)
qed

lemma doji_label64:
  assumes "x \<in> set (detect_single_candlestick_patterns64 d)" and "x \<in> set doji_family"
  shows "is_doji64 (iloc_neg (df64 d) 1) (iloc_neg (avg_total_size64 d) 1)"
  using assms
  by (auto simp: detect_single_candlestick_patterns64_def doji_family_def append_if_def Let_def
      split: if_splits)

lemma marubozu_label64:
  assumes "x \<in> set (detect_single_candlestick_patterns64 d)" and "x \<in> set marubozu_labels"
  shows "is_marubozu64 (iloc_neg (df64 d) 1) (iloc_neg (avg_body_size64 d) 1)"
  using assms
  by (auto simp: detect_single_candlestick_patterns64_def marubozu_labels_def append_if_def
      Let_def split: if_splits)

section \<open>The claims\<close>

subsection \<open>Empty input and schema validation\<close>

text \<open>
  Claim C10.  For every input with no rows, \<open>detect_candlestick_patterns\<close> returns the
  empty list, whatever columns the input has: the emptiness check comes before the detector
  is built, so the required columns are never looked at and no error is raised.
\<close>

theorem empty_input_skips_validation:
  assumes "length (rows f) = 0"
  shows "detect_candlestick_patterns f = Inr []"
  using assms by (simp add: detect_candlestick_patterns_def)

text \<open>
  At a frame with no rows and without the \<^verbatim>\<open>high\<close>, \<^verbatim>\<open>low\<close> and \<^verbatim>\<open>close\<close> columns the
  result is the empty list, although building the detector on it would raise.
\<close>

theorem empty_input_skips_validation_witness:
  "length (rows no_rows) = 0 \<and>
   \<not> set required_cols \<subseteq> set (columns no_rows) \<and>
   prepare_data no_rows = Inl (ValueError ''Missing required column: high'') \<and>
   detect_candlestick_patterns no_rows = Inr []"
proof -
  have h: "length (rows no_rows) = 0"
    by (simp add: no_rows_def)
  have "prepare_data no_rows = Inl (ValueError ''Missing required column: high'')"
    by (simp add: no_rows_def prepare_data_def required_cols_def)
  with h empty_input_skips_validation [OF h] show ?thesis
    by (simp add: no_rows_def required_cols_def)
qed

text \<open>
  Claim C2, as stated: every input that lacks one of the columns \<^verbatim>\<open>open\<close>, \<^verbatim>\<open>high\<close>,
  \<^verbatim>\<open>low\<close>, \<^verbatim>\<open>close\<close> makes detection fail with a schema error.  It fails at the empty
  frame \<^verbatim>\<open>pd.DataFrame()\<close>: all four columns are absent and the result is the empty list.
\<close>

theorem missing_field_empty_counterexample:
  "\<not> set required_cols \<subseteq> set (columns empty_frame) \<and>
   detect_candlestick_patterns empty_frame = Inr []"
  by (simp add: empty_frame_def required_cols_def detect_candlestick_patterns_def df_empty_def)

text \<open>
  Claim C2, amended.  For every input that is not empty (at least one row and at least one
  column) and lacks one of the columns \<^verbatim>\<open>open\<close>, \<^verbatim>\<open>high\<close>, \<^verbatim>\<open>low\<close>, \<^verbatim>\<open>close\<close>,
  detection fails with the error that names a missing required column, and so returns no
  label list.
\<close>

theorem missing_field_raises:
  assumes "\<not> df_empty f" and "\<not> set required_cols \<subseteq> set (columns f)"
  shows "\<exists>col \<in> set required_cols. col \<notin> set (columns f) \<and>
           detect_candlestick_patterns f =
             Inl (ValueError (''Missing required column: '' @ col))"
proof -
  from assms(1) have "\<not> (df_empty f \<or> length (rows f) < 1)"
    by (auto simp: df_empty_def)
  moreover from prepare_data_Inl [OF assms(2)] obtain col where
    "col \<in> set required_cols" "col \<notin> set (columns f)"
    "prepare_data f = Inl (ValueError (''Missing required column: '' @ col))"
    by blast
  ultimately show ?thesis
    by (auto simp: detect_candlestick_patterns_def)
qed

theorem missing_field_raises_witness:
  "\<not> df_empty invalid_frame \<and>
   \<not> set required_cols \<subseteq> set (columns invalid_frame) \<and>
   detect_candlestick_patterns invalid_frame =
     Inl (ValueError ''Missing required column: high'')"
proof -
  have h1: "\<not> df_empty invalid_frame"
    by (simp add: invalid_frame_def df_empty_def)
  have h2: "\<not> set required_cols \<subseteq> set (columns invalid_frame)"
    by (simp add: invalid_frame_def required_cols_def)
  from missing_field_raises [OF h1 h2] obtain col where
    "col \<in> set required_cols" "col \<notin> set (columns invalid_frame)"
    and r: "detect_candlestick_patterns invalid_frame =
              Inl (ValueError (''Missing required column: '' @ col))"
    by blast
  moreover have "detect_candlestick_patterns invalid_frame =
      Inl (ValueError ''Missing required column: high'')"
    by (simp add: invalid_frame_def frame_defs)
  ultimately show ?thesis
    using h1 h2 by simp
qed

subsection \<open>The Doji family\<close>

text \<open>
  Claim C1, as stated: for a candle with \<open>total_size = 0\<close> every ratio predicate is false
  and no Doji-family label is emitted.  It fails at the candle whose four prices are all
  100: its range is 0, the Doji predicate holds (\<open>0 \<le> 0.1 * 0\<close>) and the label Doji is
  emitted.
\<close>

theorem zero_range_doji_counterexample:
  "total_size (derive_features (ohlc 100 100 100 100)) = 0 \<and>
   is_doji (derive_features (ohlc 100 100 100 100)) (Some 0) \<and>
   detect_candlestick_patterns flat_candle = Inr [''Doji'']"
  by (simp add: flat_candle_def frame_defs aggregator_defs predicate_defs)

text \<open>
  Claim C1, amended.  For the last candle of a series, when its \<open>total_size\<close> is 0: every
  predicate is a comparison of products and sums, so none raises; the Doji predicate holds
  exactly when \<open>body_size\<close> is 0; and when neither shadow is negative (\<open>high\<close> is at least
  and \<open>low\<close> at most both \<open>open\<close> and \<open>close\<close>) the Doji predicate holds, the Dragonfly,
  Gravestone and Long-legged Doji predicates and the Hammer, Inverted Hammer, Hanging Man,
  Shooting Star, Spinning Top and Marubozu predicates are false, and the single-candle tier
  emits exactly the label Doji.
\<close>

theorem zero_range_candle:
  assumes "prepare_data f = Inr d" and "rows f \<noteq> []"
    and "total_size (iloc_neg (df d) 1) = 0"
  shows "let c = iloc_neg (df d) 1
         in (is_doji c (iloc_neg (avg_total_size d) 1) \<longleftrightarrow> body_size c = 0) \<and>
            (0 \<le> upper_shadow c \<and> 0 \<le> lower_shadow c \<longrightarrow>
               is_doji c (iloc_neg (avg_total_size d) 1) \<and>
               \<not> is_dragonfly_doji c \<and> \<not> is_gravestone_doji c \<and> \<not> is_long_legged_doji c \<and>
               (\<exists>avg_body. iloc_neg (avg_body_size d) 1 = Some avg_body \<and>
                  \<not> is_hammer c avg_body \<and> \<not> is_inverted_hammer c avg_body \<and>
                  \<not> is_hanging_man c avg_body \<and> \<not> is_shooting_star c avg_body \<and>
                  \<not> is_spinning_top c avg_body \<and> \<not> is_marubozu c avg_body) \<and>
               detect_single_candlestick_patterns d = [''Doji''])"
proof -
  let ?c = "iloc_neg (df d) 1"
  from assms(2) have len: "0 < (1::nat)" "1 \<le> length (rows f)"
    by (simp_all add: Suc_le_eq)
  from tail_candle [OF assms(1) len]
  have c: "?c = derive_features (iloc_neg (rows f) 1)" .
  have b0: "0 \<le> body_size ?c"
    by (simp only: c body_size_nonneg)
  have split: "total_size ?c = upper_shadow ?c + body_size ?c + lower_shadow ?c"
    unfolding c by (rule total_size_split)
  from tail_baselines [OF assms(1,2)] obtain avg_body avg_total where
    avg: "iloc_neg (avg_body_size d) 1 = Some avg_body" "0 \<le> avg_body"
      "iloc_neg (avg_total_size d) 1 = Some avg_total"
    by blast
  have doji: "is_doji ?c (iloc_neg (avg_total_size d) 1) \<longleftrightarrow> body_size ?c = 0"
    using b0 assms(3) by (auto simp: is_doji_def)
  have rest: "is_doji ?c (iloc_neg (avg_total_size d) 1) \<and>
               \<not> is_dragonfly_doji ?c \<and> \<not> is_gravestone_doji ?c \<and> \<not> is_long_legged_doji ?c \<and>
               (\<exists>avg_body. iloc_neg (avg_body_size d) 1 = Some avg_body \<and>
                  \<not> is_hammer ?c avg_body \<and> \<not> is_inverted_hammer ?c avg_body \<and>
                  \<not> is_hanging_man ?c avg_body \<and> \<not> is_shooting_star ?c avg_body \<and>
                  \<not> is_spinning_top ?c avg_body \<and> \<not> is_marubozu ?c avg_body) \<and>
               detect_single_candlestick_patterns d = [''Doji'']"
    if v: "0 \<le> upper_shadow ?c" "0 \<le> lower_shadow ?c"
  proof -
    from v b0 split assms(3)
    have z: "upper_shadow ?c = 0" "lower_shadow ?c = 0" "body_size ?c = 0"
      by linarith+
    have p: "is_doji ?c (iloc_neg (avg_total_size d) 1)"
      "\<not> is_dragonfly_doji ?c" "\<not> is_gravestone_doji ?c" "\<not> is_long_legged_doji ?c"
      "\<not> is_hammer ?c avg_body" "\<not> is_inverted_hammer ?c avg_body"
      "\<not> is_hanging_man ?c avg_body" "\<not> is_shooting_star ?c avg_body"
      "\<not> is_spinning_top ?c avg_body" "\<not> is_marubozu ?c avg_body"
      using z assms(3) avg(2) by (simp_all add: predicate_defs)
    from assms(2) have "\<not> length (df d) < 1"
      by (simp add: length_df [OF assms(1)])
    then have "detect_single_candlestick_patterns d = [''Doji'']"
      using p z assms(3) avg(1)
      by (simp add: detect_single_candlestick_patterns_def doji_patterns_def
          baseline_patterns_def append_if_def Let_def)
    with p avg(1) show ?thesis
      by blast
  qed
  from doji rest show ?thesis
    by (simp only: Let_def) blast
qed

theorem zero_range_candle_witness:
  "prepare_data flat_candle = Inr (projr (prepare_data flat_candle)) \<and>
   rows flat_candle \<noteq> [] \<and>
   total_size (iloc_neg (df (projr (prepare_data flat_candle))) 1) = 0 \<and>
   0 \<le> upper_shadow (iloc_neg (df (projr (prepare_data flat_candle))) 1) \<and>
   0 \<le> lower_shadow (iloc_neg (df (projr (prepare_data flat_candle))) 1) \<and>
   is_doji (iloc_neg (df (projr (prepare_data flat_candle))) 1)
     (iloc_neg (avg_total_size (projr (prepare_data flat_candle))) 1) \<and>
   detect_single_candlestick_patterns (projr (prepare_data flat_candle)) = [''Doji'']"
proof -
  have h1: "prepare_data flat_candle = Inr (projr (prepare_data flat_candle))"
    by (simp add: flat_candle_def prepare_data_def required_cols_def ohlc_columns_def)
  have h2: "rows flat_candle \<noteq> []"
    by (simp add: flat_candle_def)
  have h3: "total_size (iloc_neg (df (projr (prepare_data flat_candle))) 1) = 0"
    by (simp add: flat_candle_def frame_defs)
  have v: "0 \<le> upper_shadow (iloc_neg (df (projr (prepare_data flat_candle))) 1)"
    "0 \<le> lower_shadow (iloc_neg (df (projr (prepare_data flat_candle))) 1)"
    by (simp_all add: flat_candle_def frame_defs)
  from zero_range_candle [OF h1 h2 h3, unfolded Let_def] v h1 h2 h3 show ?thesis
    by blast
qed

text \<open>
  Claim C3.  For the last candle of a non-empty series, the Doji-family labels in the output
  are exactly the result of the first-match rule over the priority order Dragonfly,
  Gravestone, plain Doji with both shadows at most a tenth of the range, Long-legged, plain
  Doji; so at most one Doji-family label is emitted.
\<close>

theorem doji_family_first_match:
  assumes "prepare_data f = Inr d" and "rows f \<noteq> []"
  shows "detect_candlestick_patterns f = Inr (detect_all_patterns d) \<and>
         filter (\<lambda>l. l \<in> set doji_family) (detect_all_patterns d) =
           doji_first_match (iloc_neg (df d) 1) \<and>
         length (filter (\<lambda>l. l \<in> set doji_family) (detect_all_patterns d)) \<le> 1"
proof -
  from assms(2) have "1 \<le> length (df d)"
    by (simp add: length_df [OF assms(1)] Suc_le_eq)
  from filter_doji_family [OF this]
  have "filter (\<lambda>l. l \<in> set doji_family) (detect_all_patterns d) =
           doji_first_match (iloc_neg (df d) 1)"
    by (simp only: doji_patterns_first_match)
  with detect_prepared [OF assms] length_doji_first_match [of "iloc_neg (df d) 1"]
  show ?thesis
    by simp
qed

text \<open>
  The candle with no body and no upper shadow meets the Dragonfly condition and the plain
  Doji condition; only Dragonfly Doji is emitted.
\<close>

theorem doji_family_first_match_witness:
  "prepare_data dragonfly_candle = Inr (projr (prepare_data dragonfly_candle)) \<and>
   rows dragonfly_candle \<noteq> [] \<and>
   is_dragonfly_doji (iloc_neg (df (projr (prepare_data dragonfly_candle))) 1) \<and>
   is_doji (iloc_neg (df (projr (prepare_data dragonfly_candle))) 1) None \<and>
   doji_first_match (iloc_neg (df (projr (prepare_data dragonfly_candle))) 1) =
     [''Dragonfly Doji''] \<and>
   detect_candlestick_patterns dragonfly_candle = Inr [''Dragonfly Doji''] \<and>
   filter (\<lambda>l. l \<in> set doji_family) (detect_all_patterns (projr (prepare_data dragonfly_candle)))
     = [''Dragonfly Doji'']"
proof -
  have h1: "prepare_data dragonfly_candle = Inr (projr (prepare_data dragonfly_candle))"
    by (simp add: dragonfly_candle_def prepare_data_def required_cols_def ohlc_columns_def)
  have h2: "rows dragonfly_candle \<noteq> []"
    by (simp add: dragonfly_candle_def)
  have c: "is_dragonfly_doji (iloc_neg (df (projr (prepare_data dragonfly_candle))) 1) \<and>
      is_doji (iloc_neg (df (projr (prepare_data dragonfly_candle))) 1) None"
    by (simp add: dragonfly_candle_def frame_defs is_dragonfly_doji_def is_doji_def)
  then have m: "doji_first_match (iloc_neg (df (projr (prepare_data dragonfly_candle))) 1) =
     [''Dragonfly Doji'']"
    by (simp add: doji_first_match_def doji_priority_def)
  have e: "detect_candlestick_patterns dragonfly_candle = Inr [''Dragonfly Doji'']"
    by (simp add: dragonfly_candle_def frame_defs aggregator_defs predicate_defs)
  from doji_family_first_match [OF h1 h2] c m h1 h2 e show ?thesis
    by simp
qed

subsection \<open>Two-candle patterns\<close>

text \<open>
  Claim C6.  For a series of at least two candles, Harami Cross is in the output if and only
  if Bullish Harami or Bearish Harami holds for (current, previous) and the body size of the
  current candle is at most a tenth of its own \<open>total_size\<close>; the Doji test reads nothing
  but the candle, whatever is passed as its second argument.
\<close>

theorem harami_cross_iff:
  assumes "prepare_data f = Inr d" and "2 \<le> length (rows f)"
  shows "let current = iloc_neg (df d) 1; previous = iloc_neg (df d) 2
         in detect_candlestick_patterns f = Inr (detect_all_patterns d) \<and>
            (''Harami Cross'' \<in> set (detect_all_patterns d) \<longleftrightarrow>
               (is_bullish_harami current previous \<or> is_bearish_harami current previous) \<and>
               body_size current \<le> 0.1 * total_size current) \<and>
            (\<forall>avg_total. is_doji current avg_total \<longleftrightarrow>
               body_size current \<le> 0.1 * total_size current)"
proof -
  from assms(2) have ne: "rows f \<noteq> []" by auto
  from assms(2) have l: "2 \<le> length (df d)"
    by (simp add: length_df [OF assms(1)])
  show ?thesis
    using detect_prepared [OF assms(1) ne]
    by (simp add: Let_def engulfing_in_all(3) [OF l] is_harami_cross_def is_doji_def)
qed

text \<open>
  A bearish candle followed by a small bullish candle inside its body.
\<close>

theorem harami_cross_iff_witness:
  "prepare_data harami_pair = Inr (projr (prepare_data harami_pair)) \<and>
   (2::nat) \<le> length (rows harami_pair) \<and>
   detect_candlestick_patterns harami_pair =
     Inr [''Long-legged Doji'', ''Bullish Harami'', ''Harami Cross'', ''Tweezer Bottoms''] \<and>
   is_bullish_harami (iloc_neg (df (projr (prepare_data harami_pair))) 1)
     (iloc_neg (df (projr (prepare_data harami_pair))) 2) \<and>
   body_size (iloc_neg (df (projr (prepare_data harami_pair))) 1)
     \<le> 0.1 * total_size (iloc_neg (df (projr (prepare_data harami_pair))) 1) \<and>
   ''Harami Cross'' \<in> set (detect_all_patterns (projr (prepare_data harami_pair)))"
proof -
  have h1: "prepare_data harami_pair = Inr (projr (prepare_data harami_pair))"
    by (simp add: harami_pair_def prepare_data_def required_cols_def ohlc_columns_def)
  have h2: "(2::nat) \<le> length (rows harami_pair)"
    by (simp add: harami_pair_def)
  have c: "is_bullish_harami (iloc_neg (df (projr (prepare_data harami_pair))) 1)
     (iloc_neg (df (projr (prepare_data harami_pair))) 2) \<and>
   body_size (iloc_neg (df (projr (prepare_data harami_pair))) 1)
     \<le> 0.1 * total_size (iloc_neg (df (projr (prepare_data harami_pair))) 1)"
    by (simp add: harami_pair_def frame_defs is_bullish_harami_def Let_def)
  have e: "detect_candlestick_patterns harami_pair =
     Inr [''Long-legged Doji'', ''Bullish Harami'', ''Harami Cross'', ''Tweezer Bottoms'']"
    by (simp add: harami_pair_def frame_defs aggregator_defs predicate_defs)
  from harami_cross_iff [OF h1 h2] c h1 h2 e show ?thesis
    by (simp add: Let_def)
qed

text \<open>
  Claim C7.  For a series of at least two candles: when the previous candle is bearish, the
  current one is bullish, \<open>current.open < previous.close\<close> and
  \<open>current.close > previous.open\<close>, the output contains Bullish Engulfing and does not
  contain Bearish Engulfing; and the two labels never appear together.
\<close>

theorem engulfing_symmetry:
  assumes "prepare_data f = Inr d" and "2 \<le> length (rows f)"
  shows "let current = iloc_neg (df d) 1; previous = iloc_neg (df d) 2;
             out = detect_all_patterns d
         in detect_candlestick_patterns f = Inr out \<and>
            (is_bearish previous \<and> is_bullish current \<and>
             c_open current < c_close previous \<and> c_close current > c_open previous \<longrightarrow>
               ''Bullish Engulfing'' \<in> set out \<and> ''Bearish Engulfing'' \<notin> set out) \<and>
            \<not> (''Bullish Engulfing'' \<in> set out \<and> ''Bearish Engulfing'' \<in> set out)"
proof -
  from assms(2) have ne: "rows f \<noteq> []" by auto
  from assms(2) have l: "2 \<le> length (df d)"
    by (simp add: length_df [OF assms(1)])
  have "iloc_neg (df d) 2 = derive_features (iloc_neg (rows f) 2)"
    using assms by (intro tail_candle) auto
  then have x: "\<not> (is_bullish (iloc_neg (df d) 2) \<and> is_bearish (iloc_neg (df d) 2))"
    by (simp only: not_bullish_and_bearish not_False_eq_True)
  then have "\<not> (is_bullish_engulfing (iloc_neg (df d) 1) (iloc_neg (df d) 2) \<and>
                  is_bearish_engulfing (iloc_neg (df d) 1) (iloc_neg (df d) 2))"
    by (auto simp: is_bullish_engulfing_def is_bearish_engulfing_def)
  then show ?thesis
    using detect_prepared [OF assms(1) ne]
    by (auto simp: Let_def engulfing_in_all [OF l] is_bullish_engulfing_def)
qed

text \<open>
  On the three example candles the last two form a bullish engulfing.
\<close>

theorem engulfing_symmetry_witness:
  "prepare_data three_candles = Inr (projr (prepare_data three_candles)) \<and>
   (2::nat) \<le> length (rows three_candles) \<and>
   detect_candlestick_patterns three_candles =
     Inr [''Hammer'', ''Bullish Engulfing'', ''Morning Star''] \<and>
   is_bearish (iloc_neg (df (projr (prepare_data three_candles))) 2) \<and>
   is_bullish (iloc_neg (df (projr (prepare_data three_candles))) 1) \<and>
   ''Bullish Engulfing'' \<in> set (detect_all_patterns (projr (prepare_data three_candles))) \<and>
   ''Bearish Engulfing'' \<notin> set (detect_all_patterns (projr (prepare_data three_candles)))"
proof -
  have h1: "prepare_data three_candles = Inr (projr (prepare_data three_candles))"
    by (simp add: three_candles_def prepare_data_def required_cols_def ohlc_columns_def)
  have h2: "(2::nat) \<le> length (rows three_candles)"
    by (simp add: three_candles_def)
  have c: "is_bearish (iloc_neg (df (projr (prepare_data three_candles))) 2) \<and>
    is_bullish (iloc_neg (df (projr (prepare_data three_candles))) 1) \<and>
    c_open (iloc_neg (df (projr (prepare_data three_candles))) 1)
      < c_close (iloc_neg (df (projr (prepare_data three_candles))) 2) \<and>
    c_close (iloc_neg (df (projr (prepare_data three_candles))) 1)
      > c_open (iloc_neg (df (projr (prepare_data three_candles))) 2)"
    by (simp add: three_candles_def frame_defs)
  have e: "detect_candlestick_patterns three_candles =
     Inr [''Hammer'', ''Bullish Engulfing'', ''Morning Star'']"
    by (simp add: three_candles_def frame_defs aggregator_defs predicate_defs)
  from engulfing_symmetry [OF h1 h2] c h1 h2 e show ?thesis
    by (simp add: Let_def)
qed

subsection \<open>The aggregated output\<close>

text \<open>
  Claim C4.  For a series with the required columns: with no rows the result is the empty
  list; with one row only single-candle labels appear, and the two- and three-candle tiers
  return the empty list; with two rows only single- and two-candle labels appear, and the
  three-candle tier returns the empty list; with three or more rows the labels come from
  the three tiers, and there is such a series whose output holds a label of each tier.
  Detection returns a list in every case.
\<close>

theorem tier_gating:
  assumes "prepare_data f = Inr d"
  shows "(length (rows f) = 0 \<longrightarrow>
            detect_candlestick_patterns f = Inr [] \<and> detect_all_patterns d = []) \<and>
         (1 \<le> length (rows f) \<longrightarrow>
            detect_candlestick_patterns f = Inr (detect_all_patterns d)) \<and>
         (length (rows f) = 1 \<longrightarrow>
            set (detect_all_patterns d) \<subseteq> set single_labels \<and>
            detect_two_candlestick_patterns d = [] \<and>
            detect_three_candlestick_patterns d = []) \<and>
         (length (rows f) = 2 \<longrightarrow>
            set (detect_all_patterns d) \<subseteq> set single_labels \<union> set two_labels \<and>
            detect_three_candlestick_patterns d = []) \<and>
         (3 \<le> length (rows f) \<longrightarrow>
            set (detect_all_patterns d)
              \<subseteq> set single_labels \<union> set two_labels \<union> set three_labels) \<and>
         (\<exists>g e. prepare_data g = Inr e \<and> 3 \<le> length (rows g) \<and>
            set (detect_all_patterns e) \<inter> set single_labels \<noteq> {} \<and>
            set (detect_all_patterns e) \<inter> set two_labels \<noteq> {} \<and>
            set (detect_all_patterns e) \<inter> set three_labels \<noteq> {})"
proof -
  note l = length_df [OF assms]
  have all: "set (detect_all_patterns d)
      \<subseteq> set single_labels \<union> set two_labels \<union> set three_labels"
    using set_detect_single [of d] set_detect_two [of d] set_detect_three [of d]
    by (auto simp: detect_all_patterns_def)
  have 0: "detect_candlestick_patterns f = Inr [] \<and> detect_all_patterns d = []"
    if "length (rows f) = 0"
    using that l
    by (simp add: detect_candlestick_patterns_def aggregator_defs)
  have 1: "detect_candlestick_patterns f = Inr (detect_all_patterns d)"
    if "1 \<le> length (rows f)"
    using that by (intro detect_prepared [OF assms]) auto
  have two: "detect_two_candlestick_patterns d = []" if "length (rows f) < 2"
    using that l by (simp add: detect_two_candlestick_patterns_def)
  have three: "detect_three_candlestick_patterns d = []" if "length (rows f) < 3"
    using that l by (simp add: detect_three_candlestick_patterns_def)
  have s1: "set (detect_all_patterns d) \<subseteq> set single_labels" if "length (rows f) = 1"
    using that two three set_detect_single [of d] by (simp add: detect_all_patterns_def)
  have s2: "set (detect_all_patterns d) \<subseteq> set single_labels \<union> set two_labels"
    if "length (rows f) = 2"
    using that three set_detect_single [of d] set_detect_two [of d]
    by (auto simp: detect_all_patterns_def)
  have ex: "\<exists>g e. prepare_data g = Inr e \<and> 3 \<le> length (rows g) \<and>
            set (detect_all_patterns e) \<inter> set single_labels \<noteq> {} \<and>
            set (detect_all_patterns e) \<inter> set two_labels \<noteq> {} \<and>
            set (detect_all_patterns e) \<inter> set three_labels \<noteq> {}"
  proof (intro exI conjI)
    show "prepare_data three_candles = Inr (projr (prepare_data three_candles))"
      by (simp add: three_candles_def prepare_data_def required_cols_def ohlc_columns_def)
    show "3 \<le> length (rows three_candles)"
      by (simp add: three_candles_def)
    have e: "detect_all_patterns (projr (prepare_data three_candles)) =
        [''Hammer'', ''Bullish Engulfing'', ''Morning Star'']"
      by (simp add: three_candles_def frame_defs aggregator_defs predicate_defs)
    show "set (detect_all_patterns (projr (prepare_data three_candles))) \<inter> set single_labels \<noteq> {}"
      "set (detect_all_patterns (projr (prepare_data three_candles))) \<inter> set two_labels \<noteq> {}"
      "set (detect_all_patterns (projr (prepare_data three_candles))) \<inter> set three_labels \<noteq> {}"
      unfolding e
      by (simp_all add: single_labels_def baseline_labels_def two_labels_def three_labels_def)
  qed
  from 0 1 s1 s2 two three all ex show ?thesis
    by simp
qed

text \<open>
  Series of length 0, 1, 2 and 3 and their outputs.
\<close>

theorem tier_gating_witness:
  "prepare_data no_candles = Inr (projr (prepare_data no_candles)) \<and>
   length (rows no_candles) = 0 \<and>
   detect_candlestick_patterns no_candles = Inr [] \<and>
   prepare_data flat_candle = Inr (projr (prepare_data flat_candle)) \<and>
   length (rows flat_candle) = 1 \<and>
   detect_candlestick_patterns flat_candle = Inr [''Doji''] \<and>
   set [''Doji''] \<subseteq> set single_labels \<and>
   prepare_data harami_pair = Inr (projr (prepare_data harami_pair)) \<and>
   length (rows harami_pair) = 2 \<and>
   detect_candlestick_patterns harami_pair =
     Inr [''Long-legged Doji'', ''Bullish Harami'', ''Harami Cross'', ''Tweezer Bottoms''] \<and>
   set [''Long-legged Doji'', ''Bullish Harami'', ''Harami Cross'', ''Tweezer Bottoms'']
     \<subseteq> set single_labels \<union> set two_labels \<and>
   prepare_data three_candles = Inr (projr (prepare_data three_candles)) \<and>
   (3::nat) \<le> length (rows three_candles) \<and>
   detect_candlestick_patterns three_candles =
     Inr [''Hammer'', ''Bullish Engulfing'', ''Morning Star''] \<and>
   set [''Hammer'', ''Bullish Engulfing'', ''Morning Star'']
     \<subseteq> set single_labels \<union> set two_labels \<union> set three_labels"
proof -
  have p0: "prepare_data no_candles = Inr (projr (prepare_data no_candles))"
    and p1: "prepare_data flat_candle = Inr (projr (prepare_data flat_candle))"
    and p2: "prepare_data harami_pair = Inr (projr (prepare_data harami_pair))"
    and p3: "prepare_data three_candles = Inr (projr (prepare_data three_candles))"
    by (simp_all add: example_defs prepare_data_def required_cols_def ohlc_columns_def)
  have n: "length (rows no_candles) = 0" "length (rows flat_candle) = 1"
    "length (rows harami_pair) = 2" "(3::nat) \<le> length (rows three_candles)"
    by (simp_all add: example_defs)
  have e: "detect_candlestick_patterns flat_candle = Inr [''Doji'']"
    "detect_candlestick_patterns harami_pair =
       Inr [''Long-legged Doji'', ''Bullish Harami'', ''Harami Cross'', ''Tweezer Bottoms'']"
    "detect_candlestick_patterns three_candles =
       Inr [''Hammer'', ''Bullish Engulfing'', ''Morning Star'']"
    by (simp_all add: example_defs frame_defs aggregator_defs predicate_defs)
  from tier_gating [OF p0] n(1)
  have r0: "detect_candlestick_patterns no_candles = Inr []"
    by blast
  from tier_gating [OF p1] n(2)
  have r1: "detect_candlestick_patterns flat_candle =
        Inr (detect_all_patterns (projr (prepare_data flat_candle)))"
      "set (detect_all_patterns (projr (prepare_data flat_candle))) \<subseteq> set single_labels"
    by simp_all
  from tier_gating [OF p2] n(3)
  have r2: "detect_candlestick_patterns harami_pair =
        Inr (detect_all_patterns (projr (prepare_data harami_pair)))"
      "set (detect_all_patterns (projr (prepare_data harami_pair)))
         \<subseteq> set single_labels \<union> set two_labels"
    by simp_all
  from tier_gating [OF p3] n(4)
  have r3: "detect_candlestick_patterns three_candles =
        Inr (detect_all_patterns (projr (prepare_data three_candles)))"
      "set (detect_all_patterns (projr (prepare_data three_candles)))
         \<subseteq> set single_labels \<union> set two_labels \<union> set three_labels"
    by simp_all
  from r1 e(1) have a1: "set [''Doji''] \<subseteq> set single_labels"
    by simp
  from r2 e(2) have a2:
    "set [''Long-legged Doji'', ''Bullish Harami'', ''Harami Cross'', ''Tweezer Bottoms'']
       \<subseteq> set single_labels \<union> set two_labels"
    by simp
  from r3 e(3) have a3: "set [''Hammer'', ''Bullish Engulfing'', ''Morning Star'']
       \<subseteq> set single_labels \<union> set two_labels \<union> set three_labels"
    by simp
  from p0 p1 p2 p3 n e r0 a1 a2 a3 show ?thesis
    by blast
qed

text \<open>
  Claim C5.  For a non-empty series with the required columns the output is the matches of
  the single-candle table, followed by the matches of the two-candle table when there are
  at least two rows, followed by the matches of the three-candle table when there are at
  least three, each in table order and with nothing removed or reordered; the Doji rows of
  the single-candle table hold by the first-match rule.  So the output is a subsequence of
  the label vocabulary.
\<close>

theorem output_order:
  assumes "prepare_data f = Inr d" and "rows f \<noteq> []"
  shows "\<exists>avg_body.
           iloc_neg (avg_body_size d) 1 = Some avg_body \<and>
           detect_candlestick_patterns f = Inr (detect_all_patterns d) \<and>
           detect_all_patterns d =
             matches (single_table (iloc_neg (df d) 1) avg_body) @
             (if 2 \<le> length (rows f)
              then matches (two_table (iloc_neg (df d) 1) (iloc_neg (df d) 2)) else []) @
             (if 3 \<le> length (rows f)
              then matches (three_table (iloc_neg (df d) 3) (iloc_neg (df d) 2)
                      (iloc_neg (df d) 1)) else []) \<and>
           subseq (detect_all_patterns d) pattern_labels"
proof -
  from detect_single_matches [OF assms] obtain avg_body where
    avg: "iloc_neg (avg_body_size d) 1 = Some avg_body"
    and s: "detect_single_candlestick_patterns d =
              matches (single_table (iloc_neg (df d) 1) avg_body)"
    by blast
  note l = length_df [OF assms(1)]
  have t: "detect_two_candlestick_patterns d =
      (if 2 \<le> length (rows f)
       then matches (two_table (iloc_neg (df d) 1) (iloc_neg (df d) 2)) else [])"
    by (cases "2 \<le> length (rows f)")
       (simp_all add: detect_two_matches l, simp add: detect_two_candlestick_patterns_def l)
  have u: "detect_three_candlestick_patterns d =
      (if 3 \<le> length (rows f)
       then matches (three_table (iloc_neg (df d) 3) (iloc_neg (df d) 2)
               (iloc_neg (df d) 1)) else [])"
    by (cases "3 \<le> length (rows f)")
       (simp_all add: detect_three_matches l, simp add: detect_three_candlestick_patterns_def l)
  have eq: "detect_all_patterns d =
             matches (single_table (iloc_neg (df d) 1) avg_body) @
             (if 2 \<le> length (rows f)
              then matches (two_table (iloc_neg (df d) 1) (iloc_neg (df d) 2)) else []) @
             (if 3 \<le> length (rows f)
              then matches (three_table (iloc_neg (df d) 3) (iloc_neg (df d) 2)
                      (iloc_neg (df d) 1)) else [])"
    by (simp only: detect_all_patterns_def s t u)
  have 1: "subseq (matches (single_table (iloc_neg (df d) 1) avg_body)) single_labels"
    using subseq_matches [of "single_table (iloc_neg (df d) 1) avg_body"]
    by (simp only: table_labels)
  have 2: "subseq (if 2 \<le> length (rows f)
              then matches (two_table (iloc_neg (df d) 1) (iloc_neg (df d) 2)) else [])
            two_labels"
    using subseq_matches [of "two_table (iloc_neg (df d) 1) (iloc_neg (df d) 2)"]
    by (simp add: table_labels)
  have 3: "subseq (if 3 \<le> length (rows f)
              then matches (three_table (iloc_neg (df d) 3) (iloc_neg (df d) 2)
                      (iloc_neg (df d) 1)) else [])
            three_labels"
    using subseq_matches [of "three_table (iloc_neg (df d) 3) (iloc_neg (df d) 2)
        (iloc_neg (df d) 1)"]
    by (simp add: table_labels)
  have "subseq (detect_all_patterns d) pattern_labels"
    unfolding eq pattern_labels_def
    by (intro list_emb_append_mono 1 2 3)
  with avg eq detect_prepared [OF assms] show ?thesis
    by blast
qed

text \<open>
  On the three example candles one label of each tier is emitted, in tier order.
\<close>

theorem output_order_witness:
  "prepare_data three_candles = Inr (projr (prepare_data three_candles)) \<and>
   rows three_candles \<noteq> [] \<and>
   detect_candlestick_patterns three_candles =
     Inr [''Hammer'', ''Bullish Engulfing'', ''Morning Star''] \<and>
   subseq [''Hammer'', ''Bullish Engulfing'', ''Morning Star''] pattern_labels"
proof -
  have h1: "prepare_data three_candles = Inr (projr (prepare_data three_candles))"
    by (simp add: three_candles_def prepare_data_def required_cols_def ohlc_columns_def)
  have h2: "rows three_candles \<noteq> []"
    by (simp add: three_candles_def)
  have e: "detect_candlestick_patterns three_candles =
     Inr [''Hammer'', ''Bullish Engulfing'', ''Morning Star'']"
    by (simp add: three_candles_def frame_defs aggregator_defs predicate_defs)
  from output_order [OF h1 h2] have
    "detect_candlestick_patterns three_candles =
       Inr (detect_all_patterns (projr (prepare_data three_candles)))"
    "subseq (detect_all_patterns (projr (prepare_data three_candles))) pattern_labels"
    by blast+
  with e h1 h2 show ?thesis
    by simp
qed

subsection \<open>Doji and Marubozu\<close>

text \<open>
  Claim C9, as stated: the output never contains both a Doji-family label and a Marubozu
  label.  It fails in float64 when \<open>high - low\<close> overflows while \<open>close - open\<close> does not:
  \<open>body_size \<le> 0.1 * inf\<close> holds, so the candle is a Doji, and its body and shadows still
  meet the Marubozu bounds.  On the example the single-candle tier, whose labels come first in
  the output, emits Doji and Bullish Marubozu.
\<close>

theorem doji_marubozu_overflow_counterexample:
  "prepare_data64 overflow_candles = Inr (projr (prepare_data64 overflow_candles)) \<and>
   body_size64 (iloc_neg (df64 (projr (prepare_data64 overflow_candles))) 1)
     = Finite (14 * big) \<and>
   total_size64 (iloc_neg (df64 (projr (prepare_data64 overflow_candles))) 1) = PosInf \<and>
   detect_single_candlestick_patterns64 (projr (prepare_data64 overflow_candles)) =
     [''Doji'', ''Bullish Marubozu''] \<and>
   ''Doji'' \<in> set doji_family \<and> ''Bullish Marubozu'' \<in> set marubozu_labels"
  using big_bounds
  by (simp add: overflow_candles_def float64_defs required_cols_def ohlc_def ohlc_columns_def
      iloc_neg_def append_if_def Let_def doji_family_def marubozu_labels_def)

text \<open>
  Claim C9, amended.  For the last candle of a non-empty series of finite prices, when its
  \<open>body_size\<close> and its \<open>total_size\<close> are finite (neither \<open>close - open\<close> nor
  \<open>high - low\<close> overflows), the single-candle tier, the only tier that emits these labels,
  never emits both a Doji-family label and a Marubozu label, whatever the baseline is: the
  range is the sum of the body size and the two shadows, so the Doji bound on the body and
  the Marubozu bounds on the shadows cannot hold together for a body size that is not
  negative.
\<close>

theorem doji_marubozu_exclusive_finite:
  assumes "prepare_data64 f = Inr d" and "rows f \<noteq> []"
    and "body_size64 (iloc_neg (df64 d) 1) = Finite b"
    and "total_size64 (iloc_neg (df64 d) 1) = Finite t"
  shows "\<not> (set (detect_single_candlestick_patterns64 d) \<inter> set doji_family \<noteq> {} \<and>
            set (detect_single_candlestick_patterns64 d) \<inter> set marubozu_labels \<noteq> {})"
proof
  assume "set (detect_single_candlestick_patterns64 d) \<inter> set doji_family \<noteq> {} \<and>
          set (detect_single_candlestick_patterns64 d) \<inter> set marubozu_labels \<noteq> {}"
  then obtain x y where
    x: "x \<in> set (detect_single_candlestick_patterns64 d)" "x \<in> set doji_family" and
    y: "y \<in> set (detect_single_candlestick_patterns64 d)" "y \<in> set marubozu_labels"
    by blast
  note c = tail_candle64(1) [OF assms(1,2)]
  from doji_label64 [OF x] marubozu_label64 [OF y]
  have "is_doji64 (derive_features64 (iloc_neg (rows f) 1)) (iloc_neg (avg_total_size64 d) 1)"
    "is_marubozu64 (derive_features64 (iloc_neg (rows f) 1)) (iloc_neg (avg_body_size64 d) 1)"
    by (simp_all only: c)
  with doji_excludes_marubozu64 [OF assms(3,4) [unfolded c]] show False
    by blast
qed

text \<open>The candle with a body of 10 and shadows of a half is a Marubozu and not a Doji.\<close>

theorem doji_marubozu_exclusive_finite_witness:
  "prepare_data64 marubozu_candles = Inr (projr (prepare_data64 marubozu_candles)) \<and>
   rows marubozu_candles \<noteq> [] \<and>
   body_size64 (iloc_neg (df64 (projr (prepare_data64 marubozu_candles))) 1) = Finite 10 \<and>
   total_size64 (iloc_neg (df64 (projr (prepare_data64 marubozu_candles))) 1) = Finite 11 \<and>
   detect_single_candlestick_patterns64 (projr (prepare_data64 marubozu_candles)) =
     [''Bullish Marubozu''] \<and>
   set (detect_single_candlestick_patterns64 (projr (prepare_data64 marubozu_candles)))
     \<inter> set marubozu_labels \<noteq> {} \<and>
   set (detect_single_candlestick_patterns64 (projr (prepare_data64 marubozu_candles)))
     \<inter> set doji_family = {}"
proof -
  have h1: "prepare_data64 marubozu_candles = Inr (projr (prepare_data64 marubozu_candles))"
    by (simp add: marubozu_candles_def prepare_data64_def required_cols_def ohlc_columns_def)
  have h2: "rows marubozu_candles \<noteq> []"
    by (simp add: marubozu_candles_def)
  have h3: "body_size64 (iloc_neg (df64 (projr (prepare_data64 marubozu_candles))) 1) = Finite 10"
    and h4: "total_size64 (iloc_neg (df64 (projr (prepare_data64 marubozu_candles))) 1) = Finite 11"
    using big_bounds
    by (simp_all add: marubozu_candles_def float64_defs required_cols_def ohlc_def
        ohlc_columns_def iloc_neg_def Let_def)
  have e: "detect_single_candlestick_patterns64 (projr (prepare_data64 marubozu_candles)) =
     [''Bullish Marubozu'']"
    using big_bounds
    by (simp add: marubozu_candles_def float64_defs required_cols_def ohlc_def ohlc_columns_def
        iloc_neg_def append_if_def Let_def)
  have m: "set (detect_single_candlestick_patterns64 (projr (prepare_data64 marubozu_candles)))
     \<inter> set marubozu_labels \<noteq> {}"
    unfolding e by (simp add: marubozu_labels_def)
  from doji_marubozu_exclusive_finite [OF h1 h2 h3 h4] m h1 h2 h3 h4 e show ?thesis
    by blast
qed

end
